theory Spec2Isabelle
  imports Complex_Main "HOL-Library.Word"
begin

section \<open>Values shared by the three processes\<close>

text \<open>
  The extension runs three cooperating scripts: the capturer (\<^verbatim>\<open>offscreen.js\<close>), the
  controller (the service worker, \<^verbatim>\<open>src/unnamed/part_000\<close>) and the renderer
  (\<^verbatim>\<open>contentScript.js\<close>). A \<^verbatim>\<open>Uint8Array\<close> is a list of 8-bit words; a JavaScript string is
  a list of UTF-16 code units, so that \<^verbatim>\<open>length\<close> is the \<^verbatim>\<open>.length\<close> of the source also for
  Hebrew text. \<open>js\<close> writes an ASCII literal of the source as such a string.
\<close>

type_synonym byte = "8 word"
type_synonym code_unit = "16 word"
type_synonym jsstring = "code_unit list"

definition js :: "string \<Rightarrow> jsstring" where
  "js s = map (\<lambda>c. of_nat (of_char c)) s"

text \<open>
  A value produced by \<^verbatim>\<open>JSON.parse\<close>. A property that is absent reads as \<^verbatim>\<open>undefined\<close>,
  which is \<open>None\<close> below; the keys of a parsed object are distinct. Numbers are only
  tested for truthiness and passed on.
\<close>

datatype json =
    JNull
  | JBool bool
  | JNum real
  | JStr jsstring
  | JArr "json list"
  | JObj "(jsstring \<times> json) list"

fun get_prop :: "json \<Rightarrow> jsstring \<Rightarrow> json option" where
  "get_prop (JObj fields) name = map_of fields name"
| "get_prop _ name = None"

subsection \<open>Platform functions: \<^verbatim>\<open>String.prototype.trim\<close>, \<^verbatim>\<open>btoa\<close>, \<^verbatim>\<open>atob\<close>\<close>

text \<open>
  These are built into the browser, not written in the repository. \<open>trim\<close> strips the
  code units ECMAScript calls WhiteSpace or LineTerminator from both ends.
\<close>

definition js_whitespace :: "code_unit \<Rightarrow> bool" where
  "js_whitespace c \<longleftrightarrow>
     c = 0x9 \<or> c = 0xA \<or> c = 0xB \<or> c = 0xC \<or> c = 0xD \<or> c = 0x20 \<or> c = 0xA0 \<or>
     c = 0x1680 \<or> (0x2000 \<le> c \<and> c \<le> 0x200A) \<or> c = 0x2028 \<or> c = 0x2029 \<or>
     c = 0x202F \<or> c = 0x205F \<or> c = 0x3000 \<or> c = 0xFEFF"

definition trim :: "jsstring \<Rightarrow> jsstring" where
  "trim s = rev (dropWhile js_whitespace (rev (dropWhile js_whitespace s)))"

text \<open>
  \<^verbatim>\<open>btoa\<close> is the base64 encoding of RFC 4648 with padding; it throws (\<open>None\<close>) when a
  code unit of its argument is above 255. \<^verbatim>\<open>atob\<close> is the forgiving-base64 decode of the
  HTML standard: ASCII whitespace is removed, one or two trailing \<^verbatim>\<open>=\<close> are removed when the
  length is a multiple of four, a length of 1 modulo 4 or a code unit outside the alphabet
  throws (\<open>None\<close>), and the left-over 2 or 4 bits of a final partial group are discarded.
\<close>

definition b64_code :: "nat \<Rightarrow> nat" where
  "b64_code i =
     (if i < 26 then 65 + i
      else if i < 52 then 97 + (i - 26)
      else if i < 62 then 48 + (i - 52)
      else if i = 62 then 43 else 47)"

definition b64_char :: "nat \<Rightarrow> code_unit" where
  "b64_char i = of_nat (b64_code i)"

definition b64_index :: "code_unit \<Rightarrow> nat option" where
  "b64_index c =
     (let n = unat c in
      if 65 \<le> n \<and> n \<le> 90 then Some (n - 65)
      else if 97 \<le> n \<and> n \<le> 122 then Some (n - 71)
      else if 48 \<le> n \<and> n \<le> 57 then Some (n + 4)
      else if n = 43 then Some 62
      else if n = 47 then Some 63
      else None)"

fun base64_encode :: "byte list \<Rightarrow> jsstring" where
  "base64_encode (x # y # z # rest) =
     [b64_char (unat x div 4),
      b64_char ((unat x mod 4) * 16 + unat y div 16),
      b64_char ((unat y mod 16) * 4 + unat z div 64),
      b64_char (unat z mod 64)] @ base64_encode rest"
| "base64_encode [x, y] =
     [b64_char (unat x div 4),
      b64_char ((unat x mod 4) * 16 + unat y div 16),
      b64_char ((unat y mod 16) * 4),
      61]"
| "base64_encode [x] =
     [b64_char (unat x div 4), b64_char ((unat x mod 4) * 16), 61, 61]"
| "base64_encode [] = []"

definition btoa :: "jsstring \<Rightarrow> jsstring option" where
  "btoa s = (if list_ex (\<lambda>c. 0xFF < c) s then None else Some (base64_encode (map ucast s)))"

definition ascii_whitespace :: "code_unit \<Rightarrow> bool" where
  "ascii_whitespace c \<longleftrightarrow> c = 9 \<or> c = 10 \<or> c = 12 \<or> c = 13 \<or> c = 32"

definition strip_padding :: "jsstring \<Rightarrow> jsstring" where
  "strip_padding d =
     (if length d mod 4 = 0 then
        (if 2 \<le> length d \<and> last d = 61 \<and> last (butlast d) = 61 then butlast (butlast d)
         else if d \<noteq> [] \<and> last d = 61 then butlast d
         else d)
      else d)"

fun decode_sextets :: "nat list \<Rightarrow> byte list" where
  "decode_sextets (p # q # r # s # rest) =
     [of_nat (p * 4 + q div 16), of_nat ((q mod 16) * 16 + r div 4), of_nat ((r mod 4) * 64 + s)]
       @ decode_sextets rest"
| "decode_sextets [p, q, r] = [of_nat (p * 4 + q div 16), of_nat ((q mod 16) * 16 + r div 4)]"
| "decode_sextets [p, q] = [of_nat (p * 4 + q div 16)]"
| "decode_sextets _ = []"

definition atob :: "jsstring \<Rightarrow> jsstring option" where
  "atob data =
     (let d = strip_padding (filter (\<lambda>c. \<not> ascii_whitespace c) data) in
      if length d mod 4 = 1 then None
      else (case those (map b64_index d) of
              None \<Rightarrow> None
            | Some sextets \<Rightarrow> Some (map ucast (decode_sextets sextets))))"

subsection \<open>Messages between the processes\<close>

record metadata =
  md_index :: nat
  md_start :: rat
  md_end :: rat
  md_mimeType :: jsstring

record capture_config =
  chunkSize :: nat
  wsUrl :: jsstring

record offscreen_reply =
  success :: bool
  reply_error :: "jsstring option"

datatype status_text =
    Connected
  | ReconnectingIn nat
  | Reconnected
  | Live
  | CaptureError jsstring
  | Backend "json option"

datatype status_state = Active | Error

datatype runtime_msg =
    AUDIO_CHUNK jsstring metadata
  | STATUS_UPDATE status_text status_state
  | STOP_CAPTURE
  | START_CAPTURE jsstring capture_config
  | SUBTITLE_PREVIEW jsstring

datatype overlay_pos = Top | Center | OtherPos

datatype tab_msg =
    SUBTITLE "json option" "json option" "json option"
  | CLEAR_SUBTITLES
  | UPDATE_DISPLAY nat "overlay_pos option"
  | OtherMessage

section \<open>The capturer: \<^verbatim>\<open>offscreen.js\<close>\<close>

text \<open>
  \<^verbatim>\<open>findClusterOffset\<close>: the \<^verbatim>\<open>for\<close> loop over \<^verbatim>\<open>i < len - 3\<close>, with \<^verbatim>\<open>len - 3\<close> computed in
  JavaScript numbers (negative for a buffer shorter than three bytes, so the loop body never
  reads out of range).
\<close>

function findClusterOffset_loop :: "byte list \<Rightarrow> nat \<Rightarrow> int" where
  "findClusterOffset_loop view i =
     (if int i < int (length view) - 3 then
        (if view ! i = 0x1F \<and> view ! (i + 1) = 0x43 \<and> view ! (i + 2) = 0xB6 \<and> view ! (i + 3) = 0x75
         then int i
         else findClusterOffset_loop view (i + 1))
      else - 1)"
  by pat_completeness auto
termination
  by (relation "measure (\<lambda>(view, i). length view - i)") auto

declare findClusterOffset_loop.simps [simp del]

definition findClusterOffset :: "byte list \<Rightarrow> int" where
  "findClusterOffset buffer = findClusterOffset_loop buffer 0"

text \<open>
  \<^verbatim>\<open>arrayBufferToBase64\<close>: the loop appends \<^verbatim>\<open>String.fromCharCode(bytes[i])\<close> for each byte in
  order, then calls \<^verbatim>\<open>btoa\<close>.
\<close>

definition arrayBufferToBase64 :: "byte list \<Rightarrow> jsstring option" where
  "arrayBufferToBase64 buffer = btoa (map ucast buffer)"

text \<open>
  The module variables of the capturer, with the calls it makes on the recorder, the audio
  element and the tracks of the captured stream. A track is named by a number.
\<close>

datatype recorder_state = Inactive | Recording | Paused

datatype platform_call = RecorderStop | AudioPause | TrackStop nat

record offscreen =
  mediaRecorder :: "recorder_state option"
  captureStream :: "nat list option"
  liveAudio :: "unit option"
  webmHeader :: "byte list option"
  platform_calls :: "platform_call list"

text \<open>The variables the \<^verbatim>\<open>ondataavailable\<close> handler of one \<^verbatim>\<open>startCapture\<close> closes over.\<close>

record chunk_closure =
  chunkIndex :: nat
  chunkStartSec :: rat
  chunkMs :: nat
  mimeType :: jsstring

definition offscreen_initial :: offscreen where
  "offscreen_initial =
     \<lparr>mediaRecorder = None, captureStream = None, liveAudio = None, webmHeader = None,
      platform_calls = []\<rparr>"

text \<open>
  \<^verbatim>\<open>startCapture\<close> of the capturer. \<open>stream\<close> is what \<^verbatim>\<open>getUserMedia\<close> gives (\<open>None\<close> when it
  rejects, which leaves only the reset of \<^verbatim>\<open>webmHeader\<close>); \<open>mime\<close> is the result of
  \<^verbatim>\<open>getSupportedMimeType\<close>. \<^verbatim>\<open>config.chunkSize || 5\<close> replaces a chunk size of 0 by 5.
\<close>

definition offscreen_startCapture ::
  "nat list option \<Rightarrow> jsstring \<Rightarrow> capture_config \<Rightarrow> offscreen \<Rightarrow> offscreen \<times> chunk_closure option" where
  "offscreen_startCapture stream mime cfg g =
     (let g1 = g\<lparr>webmHeader := None\<rparr> in
      case stream of
        None \<Rightarrow> (g1, None)
      | Some tracks \<Rightarrow>
          (g1\<lparr>captureStream := Some tracks, liveAudio := Some (), mediaRecorder := Some Recording\<rparr>,
           Some \<lparr>chunkIndex = 0, chunkStartSec = 0,
                 chunkMs = (if chunkSize cfg = 0 then 5 else chunkSize cfg) * 1000,
                 mimeType = mime\<rparr>))"

text \<open>
  The \<^verbatim>\<open>ondataavailable\<close> handler (lines 56 to 91). \<open>data\<close> is \<^verbatim>\<open>e.data\<close> read as bytes,
  \<open>None\<close> for a missing blob. It returns the messages it sends to the controller. The
  handler is taken to run to its end before the next block arrives (blocks are
  \<^verbatim>\<open>chunkMs\<close> apart). When \<^verbatim>\<open>btoa\<close> throws, nothing is sent and \<^verbatim>\<open>chunkIndex++\<close> is not reached.
\<close>

definition ondataavailable ::
  "byte list option \<Rightarrow> offscreen \<times> chunk_closure \<Rightarrow> (offscreen \<times> chunk_closure) \<times> runtime_msg list" where
  "ondataavailable data s =
     (case s of (g, c) \<Rightarrow>
      (case data of
         None \<Rightarrow> (s, [])
       | Some arrayBuffer \<Rightarrow>
           if length arrayBuffer < 1 then (s, [])
           else
             let start = chunkStartSec c;
                 endSec = start + of_nat (chunkMs c) / 1000;
                 c1 = c\<lparr>chunkStartSec := endSec\<rparr>;
                 g1 = (if chunkIndex c1 = 0 then
                         (let clusterOffset = findClusterOffset arrayBuffer in
                          if clusterOffset > 0
                          then g\<lparr>webmHeader := Some (take (nat clusterOffset) arrayBuffer)\<rparr>
                          else g)
                       else g);
                 dataToSend = (if chunkIndex c1 = 0 then arrayBuffer
                               else (case webmHeader g1 of
                                       Some header \<Rightarrow> header @ arrayBuffer
                                     | None \<Rightarrow> arrayBuffer))
             in (case arrayBufferToBase64 dataToSend of
                   None \<Rightarrow> ((g1, c1), [])
                 | Some base64String \<Rightarrow>
                     ((g1, c1\<lparr>chunkIndex := chunkIndex c1 + 1\<rparr>),
                      [AUDIO_CHUNK base64String
                         \<lparr>md_index = chunkIndex c1, md_start = start, md_end = endSec,
                          md_mimeType = mimeType c1\<rparr>]))))"

text \<open>The blocks of a recording, handled one after the other.\<close>

fun run_capturer ::
  "byte list option list \<Rightarrow> offscreen \<times> chunk_closure \<Rightarrow> (offscreen \<times> chunk_closure) \<times> runtime_msg list" where
  "run_capturer [] s = (s, [])"
| "run_capturer (d # ds) s =
     (case ondataavailable d s of (s1, m1) \<Rightarrow>
        (case run_capturer ds s1 of (s2, m2) \<Rightarrow> (s2, m1 @ m2)))"

text \<open>\<^verbatim>\<open>stopCapture\<close> of the capturer (lines 123 to 136).\<close>

definition offscreen_stopCapture :: "offscreen \<Rightarrow> offscreen" where
  "offscreen_stopCapture g =
     (let g1 = (case mediaRecorder g of
                  Some st \<Rightarrow> if st \<noteq> Inactive
                             then g\<lparr>platform_calls := platform_calls g @ [RecorderStop]\<rparr> else g
                | None \<Rightarrow> g);
          g2 = g1\<lparr>mediaRecorder := None, webmHeader := None\<rparr>;
          g3 = (case liveAudio g2 of
                  Some a \<Rightarrow> g2\<lparr>platform_calls := platform_calls g2 @ [AudioPause], liveAudio := None\<rparr>
                | None \<Rightarrow> g2)
      in (case captureStream g3 of
            Some tracks \<Rightarrow>
              g3\<lparr>platform_calls := platform_calls g3 @ map TrackStop tracks, captureStream := None\<rparr>
          | None \<Rightarrow> g3))"

section \<open>The controller: the service worker (\<^verbatim>\<open>src/unnamed/part_000\<close>)\<close>

text \<open>
  The service worker is single-threaded: each listener, socket handler and timer callback
  runs to its end (or to its next \<^verbatim>\<open>await\<close>) before another starts. The state below holds
  the five module variables of the source, and with them the objects those handlers share:
  every \<^verbatim>\<open>WebSocket\<close> created (named by its position in \<open>sockets\<close>), the pending timeouts,
  the invocations of \<^verbatim>\<open>startCapture\<close> that are suspended at an \<^verbatim>\<open>await\<close>, and the calls made
  on the browser so far (\<open>out\<close>). \<^verbatim>\<open>console.log\<close> is left out.
\<close>

type_synonym ws_id = nat
type_synonym timer_id = nat
type_synonym call_id = nat

datatype ready_state = CONNECTING | OPEN | CLOSING | CLOSED

datatype promise_state = Pending | Resolved | Rejected jsstring

datatype waiter = StartCall call_id | ReconnectChain

text \<open>
  A \<^verbatim>\<open>WebSocket\<close> with what the closures of \<^verbatim>\<open>openWebSocket\<close> hold for it: \<^verbatim>\<open>url\<close>,
  \<^verbatim>\<open>attempt\<close>, the timeout \<^verbatim>\<open>t\<close>, the promise, and who consumes the promise (the \<^verbatim>\<open>await\<close> of
  a \<^verbatim>\<open>startCapture\<close>, or the \<^verbatim>\<open>then\<close>/\<^verbatim>\<open>catch\<close> of the reconnect callback).
\<close>

record websocket =
  ws_url :: jsstring
  ws_attempt :: nat
  ws_readyState :: ready_state
  ws_timeout :: timer_id
  ws_promise :: promise_state
  ws_waiter :: waiter

datatype timer_action =
    ConnectTimeout ws_id
  | ReconnectTimer jsstring nat
  | StartDelay call_id

datatype frame = TextFrame metadata | BinaryFrame "byte list"

record response =
  ok :: bool
  resp_error :: "jsstring option"

datatype storage_item = Running bool | LastSubtitle jsstring

datatype api_call =
    TabsQuery
  | ExecuteScript nat
  | GetMediaStreamId "nat option"
  | GetContexts
  | CreateDocument

datatype effect =
    RuntimeSend runtime_msg
  | TabsSend nat tab_msg
  | StorageSet storage_item
  | SocketSend ws_id frame
  | StartResponse call_id response
  | StopResponse response
  | ApiCall call_id api_call

datatype start_stage =
    AwaitTabsQuery
  | AwaitExecuteScript
  | AwaitOpenWebSocket
  | AwaitStreamId
  | AwaitGetContexts
  | AwaitCreateDocument
  | AwaitDelay
  | AwaitOffscreenStart
  | Settled

record start_call =
  call_cfg :: capture_config
  stage :: start_stage
  call_streamId :: jsstring

record controller =
  socket :: "ws_id option"
  currentTabId :: "nat option"
  config :: "capture_config option"
  wsReconnectTimer :: "timer_id option"
  isRunning :: bool
  sockets :: "websocket list"
  timers :: "(timer_id \<times> nat \<times> timer_action) list"
  nextTimer :: timer_id
  calls :: "start_call list"
  out :: "effect list"

definition controller_initial :: controller where
  "controller_initial =
     \<lparr>socket = None, currentTabId = None, config = None, wsReconnectTimer = None,
      isRunning = False, sockets = [], timers = [], nextTimer = 1, calls = [], out = []\<rparr>"

subsection \<open>Browser primitives\<close>

definition emit :: "effect \<Rightarrow> controller \<Rightarrow> controller" where
  "emit e st = st\<lparr>out := out st @ [e]\<rparr>"

text \<open>\<^verbatim>\<open>setTimeout\<close> returns the identifier \<open>nextTimer st\<close>; identifiers are never reused.\<close>

definition setTimeout :: "nat \<Rightarrow> timer_action \<Rightarrow> controller \<Rightarrow> controller" where
  "setTimeout delay action st =
     st\<lparr>timers := timers st @ [(nextTimer st, delay, action)], nextTimer := nextTimer st + 1\<rparr>"

definition clearTimeout :: "timer_id option \<Rightarrow> controller \<Rightarrow> controller" where
  "clearTimeout t st =
     (case t of
        None \<Rightarrow> st
      | Some i \<Rightarrow> st\<lparr>timers := filter (\<lambda>tm. fst tm \<noteq> i) (timers st)\<rparr>)"

definition update_socket :: "ws_id \<Rightarrow> (websocket \<Rightarrow> websocket) \<Rightarrow> controller \<Rightarrow> controller" where
  "update_socket w f st =
     (if w < length (sockets st) then st\<lparr>sockets := (sockets st)[w := f (sockets st ! w)]\<rparr> else st)"

text \<open>\<^verbatim>\<open>WebSocket.close()\<close>: a socket that is not yet closing or closed starts closing.\<close>

definition ws_close :: "ws_id \<Rightarrow> controller \<Rightarrow> controller" where
  "ws_close w st =
     update_socket w
       (\<lambda>x. if ws_readyState x = CLOSING \<or> ws_readyState x = CLOSED then x
            else x\<lparr>ws_readyState := CLOSING\<rparr>) st"

definition set_stage :: "call_id \<Rightarrow> start_stage \<Rightarrow> controller \<Rightarrow> controller" where
  "set_stage c sg st =
     (if c < length (calls st) then st\<lparr>calls := (calls st)[c := (calls st ! c)\<lparr>stage := sg\<rparr>]\<rparr> else st)"

subsection \<open>\<^verbatim>\<open>notifyStatus\<close>, \<^verbatim>\<open>stopCapture\<close>, \<^verbatim>\<open>handleAudioChunk\<close>, \<^verbatim>\<open>handleServerMessage\<close>\<close>

definition notifyStatus :: "status_text \<Rightarrow> status_state \<Rightarrow> controller \<Rightarrow> controller" where
  "notifyStatus txt state st = emit (RuntimeSend (STATUS_UPDATE txt state)) st"

datatype stop_reason = Manual | TabClosed | TabNavigated | Restart

text \<open>
  \<^verbatim>\<open>stopCapture\<close> (lines 46 to 54). The reason is only logged. \<^verbatim>\<open>if (currentTabId)\<close> is false
  for \<^verbatim>\<open>null\<close> and for the number 0.
\<close>

definition stopCapture :: "stop_reason \<Rightarrow> controller \<Rightarrow> controller" where
  "stopCapture reason st =
     (let st1 = st\<lparr>isRunning := False\<rparr>;
          st2 = clearTimeout (wsReconnectTimer st1) st1;
          st3 = emit (RuntimeSend STOP_CAPTURE) st2;
          st4 = (case socket st3 of
                   Some w \<Rightarrow> (ws_close w st3)\<lparr>socket := None\<rparr>
                 | None \<Rightarrow> st3);
          st5 = emit (StorageSet (Running False)) st4
      in (case currentTabId st5 of
            Some tab \<Rightarrow> if tab \<noteq> 0 then emit (TabsSend tab CLEAR_SUBTITLES) st5 else st5
          | None \<Rightarrow> st5))"

text \<open>
  \<^verbatim>\<open>handleAudioChunk\<close> (lines 65 to 88). When \<^verbatim>\<open>atob\<close> throws, the listener ends and nothing
  is sent. Storing a code unit in the \<^verbatim>\<open>Uint8Array\<close> keeps its low eight bits.
\<close>

definition handleAudioChunk :: "jsstring \<Rightarrow> metadata \<Rightarrow> controller \<Rightarrow> controller" where
  "handleAudioChunk chunkBase64 md st =
     (case socket st of
        None \<Rightarrow> st
      | Some w \<Rightarrow>
          if \<not> (w < length (sockets st) \<and> ws_readyState (sockets st ! w) = OPEN) then st
          else (case atob chunkBase64 of
                  None \<Rightarrow> st
                | Some binaryString \<Rightarrow>
                    (let bytes = map ucast binaryString in
                     emit (SocketSend w (BinaryFrame bytes))
                       (emit (SocketSend w (TextFrame md)) st))))"

text \<open>
  The condition \<^verbatim>\<open>msg.event === 'subtitle' && msg.text && msg.text.trim()\<close>: \<open>None\<close> when it
  throws (a truthy \<^verbatim>\<open>text\<close> that is not a string has no \<^verbatim>\<open>trim\<close> to call).
\<close>

definition subtitle_condition :: "json \<Rightarrow> bool option" where
  "subtitle_condition msg =
     (if get_prop msg (js ''event'') \<noteq> Some (JStr (js ''subtitle'')) then Some False
      else (case get_prop msg (js ''text'') of
              None \<Rightarrow> Some False
            | Some JNull \<Rightarrow> Some False
            | Some (JBool b) \<Rightarrow> if b then None else Some False
            | Some (JNum x) \<Rightarrow> if x = 0 then Some False else None
            | Some (JStr s) \<Rightarrow> Some (s \<noteq> [] \<and> trim s \<noteq> [])
            | Some (JArr xs) \<Rightarrow> None
            | Some (JObj kvs) \<Rightarrow> None))"

text \<open>
  \<^verbatim>\<open>handleServerMessage\<close> (lines 108 to 117). \<open>parsed\<close> is the result of
  \<^verbatim>\<open>JSON.parse(event.data)\<close>, \<open>None\<close> when it throws. Reading \<^verbatim>\<open>msg.event\<close> of \<^verbatim>\<open>null\<close> throws, and
  so does \<^verbatim>\<open>chrome.tabs.sendMessage\<close> for a tab identifier that is \<^verbatim>\<open>null\<close>; a throw ends the
  handler.
\<close>

definition handleServerMessage :: "json option \<Rightarrow> controller \<Rightarrow> controller" where
  "handleServerMessage parsed st =
     (case parsed of
        None \<Rightarrow> st
      | Some JNull \<Rightarrow> st
      | Some msg \<Rightarrow>
          (case subtitle_condition msg of
             None \<Rightarrow> st
           | Some relay \<Rightarrow>
               (case (if relay then
                        (case currentTabId st of
                           None \<Rightarrow> None
                         | Some tab \<Rightarrow>
                             (let txt = (case get_prop msg (js ''text'') of Some (JStr s) \<Rightarrow> s | _ \<Rightarrow> []) in
                              Some (emit (StorageSet (LastSubtitle txt))
                                (emit (RuntimeSend (SUBTITLE_PREVIEW txt))
                                  (emit (TabsSend tab
                                     (SUBTITLE (get_prop msg (js ''text'')) (get_prop msg (js ''start''))
                                        (get_prop msg (js ''end'')))) st)))))
                      else Some st) of
                  None \<Rightarrow> st
                | Some st1 \<Rightarrow>
                    if get_prop msg (js ''event'') = Some (JStr (js ''error''))
                    then notifyStatus (Backend (get_prop msg (js ''message''))) Error st1
                    else st1)))"

subsection \<open>\<^verbatim>\<open>openWebSocket\<close> and its handlers\<close>

text \<open>The delay of line 100: \<^verbatim>\<open>Math.min(2000 * 2 ** attempt, 12000)\<close>.\<close>

definition reconnect_delay :: "nat \<Rightarrow> nat" where
  "reconnect_delay attempt = min (2000 * 2 ^ attempt) 12000"

text \<open>
  \<^verbatim>\<open>openWebSocket(url, attempt)\<close>, the synchronous part (lines 93 to 95 and the assignment of
  the handlers): a new socket, stored in \<^verbatim>\<open>socket\<close>, and the 7000 ms timeout.
\<close>

definition openWebSocket :: "jsstring \<Rightarrow> nat \<Rightarrow> waiter \<Rightarrow> controller \<Rightarrow> controller" where
  "openWebSocket url attempt wt st =
     (let w = length (sockets st);
          st1 = st\<lparr>sockets := sockets st @
                   [\<lparr>ws_url = url, ws_attempt = attempt, ws_readyState = CONNECTING,
                     ws_timeout = nextTimer st, ws_promise = Pending, ws_waiter = wt\<rparr>],
                  socket := Some w\<rparr>
      in setTimeout 7000 (ConnectTimeout w) st1)"

text \<open>
  What follows the \<^verbatim>\<open>await openWebSocket\<close> of \<^verbatim>\<open>startCapture\<close>: on success line 30 asks for the
  stream identifier; a rejection leaves \<^verbatim>\<open>startCapture\<close> through the \<^verbatim>\<open>catch\<close> of line 9, which
  answers the request with the error's message.
\<close>

definition fail_start :: "call_id \<Rightarrow> jsstring \<Rightarrow> controller \<Rightarrow> controller" where
  "fail_start c message st =
     emit (StartResponse c \<lparr>ok = False, resp_error = Some message\<rparr>) (set_stage c Settled st)"

definition after_open :: "call_id \<Rightarrow> promise_state \<Rightarrow> controller \<Rightarrow> controller" where
  "after_open c outcome st =
     (case outcome of
        Resolved \<Rightarrow> emit (ApiCall c (GetMediaStreamId (currentTabId st))) (set_stage c AwaitStreamId st)
      | Rejected message \<Rightarrow> fail_start c message st
      | Pending \<Rightarrow> st)"

text \<open>
  \<^verbatim>\<open>resolve\<close> and \<^verbatim>\<open>reject\<close> of the promise of socket \<open>w\<close>: the first settles it and runs its
  consumer, a later one does nothing.
\<close>

definition settle :: "ws_id \<Rightarrow> promise_state \<Rightarrow> controller \<Rightarrow> controller" where
  "settle w outcome st =
     (if w < length (sockets st) \<and> ws_promise (sockets st ! w) = Pending then
        (let st1 = update_socket w (\<lambda>x. x\<lparr>ws_promise := outcome\<rparr>) st in
         case ws_waiter (sockets st ! w) of
           StartCall c \<Rightarrow> after_open c outcome st1
         | ReconnectChain \<Rightarrow>
             (case outcome of
                Resolved \<Rightarrow> notifyStatus Reconnected Active st1
              | _ \<Rightarrow> st1))
      else st)"

definition ws_onopen :: "ws_id \<Rightarrow> controller \<Rightarrow> controller" where
  "ws_onopen w st =
     settle w Resolved
       (notifyStatus Connected Active (clearTimeout (Some (ws_timeout (sockets st ! w))) st))"

definition ws_onerror :: "ws_id \<Rightarrow> controller \<Rightarrow> controller" where
  "ws_onerror w st =
     settle w (Rejected (js ''failed'')) (clearTimeout (Some (ws_timeout (sockets st ! w))) st)"

definition ws_onclose :: "ws_id \<Rightarrow> controller \<Rightarrow> controller" where
  "ws_onclose w st =
     (if \<not> isRunning st then st
      else
        (let delay = reconnect_delay (ws_attempt (sockets st ! w));
             st1 = notifyStatus (ReconnectingIn delay) Error st;
             st2 = setTimeout delay (ReconnectTimer (ws_url (sockets st ! w)) (ws_attempt (sockets st ! w))) st1
         in st2\<lparr>wsReconnectTimer := Some (nextTimer st1)\<rparr>))"

text \<open>The callback of the 7000 ms timeout (line 95) and the reconnect callback (line 102).\<close>

definition connect_timeout :: "ws_id \<Rightarrow> controller \<Rightarrow> controller" where
  "connect_timeout w st = settle w (Rejected (js ''timeout'')) (ws_close w st)"

definition reconnect_callback :: "jsstring \<Rightarrow> nat \<Rightarrow> controller \<Rightarrow> controller" where
  "reconnect_callback url attempt st =
     (if \<not> isRunning st then st else openWebSocket url (attempt + 1) ReconnectChain st)"

subsection \<open>\<^verbatim>\<open>startCapture\<close>\<close>

text \<open>
  \<^verbatim>\<open>startCapture\<close> (lines 20 to 44) is asynchronous: it runs up to an \<^verbatim>\<open>await\<close>, and goes on when
  the awaited operation completes, with other handlers running in between. The synchronous
  beginning is lines 21 to 24.
\<close>

definition startCapture :: "capture_config \<Rightarrow> controller \<Rightarrow> controller" where
  "startCapture cfg st =
     (let st1 = (if isRunning st then stopCapture Restart st else st);
          st2 = st1\<lparr>config := Some cfg, isRunning := True\<rparr>;
          c = length (calls st2);
          st3 = st2\<lparr>calls := calls st2 @ [\<lparr>call_cfg = cfg, stage = AwaitTabsQuery, call_streamId = []\<rparr>]\<rparr>
      in emit (ApiCall c TabsQuery) st3)"

text \<open>
  How an awaited browser call completes: the first tab of \<^verbatim>\<open>chrome.tabs.query\<close> (\<open>None\<close> for
  an empty result); \<^verbatim>\<open>executeScript\<close> settled either way (its rejection is swallowed); the
  callback of \<^verbatim>\<open>getMediaStreamId\<close> with the message of \<^verbatim>\<open>chrome.runtime.lastError\<close> when set and
  the identifier when given; the number of existing offscreen contexts; \<^verbatim>\<open>createDocument\<close>
  done; the reply of the capturer (\<open>None\<close> for no reply); or the rejection of the awaited
  promise with an error message.
\<close>

datatype awaited =
    TabsQueryResult "nat option"
  | ExecuteScriptSettled
  | StreamIdResult "jsstring option" "jsstring option"
  | GetContextsResult nat
  | CreateDocumentDone
  | OffscreenReply "offscreen_reply option"
  | ApiRejected jsstring

definition or_else :: "jsstring option \<Rightarrow> jsstring \<Rightarrow> jsstring" where
  "or_else x d = (case x of Some m \<Rightarrow> if m \<noteq> [] then m else d | None \<Rightarrow> d)"

definition start_delay :: "call_id \<Rightarrow> controller \<Rightarrow> controller" where
  "start_delay c st = setTimeout 200 (StartDelay c) (set_stage c AwaitDelay st)"

definition resume :: "call_id \<Rightarrow> awaited \<Rightarrow> controller \<Rightarrow> controller" where
  "resume c r st =
     (if \<not> c < length (calls st) then st
      else
        (case (stage (calls st ! c), r) of
           (AwaitTabsQuery, TabsQueryResult None) \<Rightarrow> fail_start c (js ''No active tab found'') st
         | (AwaitTabsQuery, TabsQueryResult (Some tab)) \<Rightarrow>
             emit (ApiCall c (ExecuteScript tab))
               (set_stage c AwaitExecuteScript (st\<lparr>currentTabId := Some tab\<rparr>))
         | (AwaitTabsQuery, ApiRejected m) \<Rightarrow> fail_start c m st
         | (AwaitExecuteScript, ExecuteScriptSettled) \<Rightarrow>
             openWebSocket (wsUrl (call_cfg (calls st ! c))) 0 (StartCall c)
               (set_stage c AwaitOpenWebSocket st)
         | (AwaitExecuteScript, ApiRejected m) \<Rightarrow>
             openWebSocket (wsUrl (call_cfg (calls st ! c))) 0 (StartCall c)
               (set_stage c AwaitOpenWebSocket st)
         | (AwaitStreamId, StreamIdResult lastError ident) \<Rightarrow>
             if lastError \<noteq> None \<or> ident = None \<or> ident = Some []
             then fail_start c (or_else lastError (js ''failed'')) st
             else emit (ApiCall c GetContexts)
                    (set_stage c AwaitGetContexts
                       (st\<lparr>calls := (calls st)[c := (calls st ! c)\<lparr>call_streamId := the ident\<rparr>]\<rparr>))
         | (AwaitGetContexts, GetContextsResult n) \<Rightarrow>
             if n > 0 then start_delay c st
             else emit (ApiCall c CreateDocument) (set_stage c AwaitCreateDocument st)
         | (AwaitGetContexts, ApiRejected m) \<Rightarrow> fail_start c m st
         | (AwaitCreateDocument, CreateDocumentDone) \<Rightarrow> start_delay c st
         | (AwaitCreateDocument, ApiRejected m) \<Rightarrow> fail_start c m st
         | (AwaitOffscreenStart, OffscreenReply None) \<Rightarrow>
             fail_start c (js ''Offscreen failed: '' @ js ''no response'') st
         | (AwaitOffscreenStart, OffscreenReply (Some rep)) \<Rightarrow>
             if \<not> success rep
             then fail_start c (js ''Offscreen failed: '' @ or_else (reply_error rep) (js ''no response'')) st
             else emit (StartResponse c \<lparr>ok = True, resp_error = None\<rparr>)
                    (set_stage c Settled
                       (emit (StorageSet (Running True)) (notifyStatus Live Active st)))
         | (AwaitOffscreenStart, ApiRejected m) \<Rightarrow> fail_start c m st
         | _ \<Rightarrow> st))"

text \<open>The 200 ms pause of line 38 has passed: line 39 asks the capturer to start.\<close>

definition delay_done :: "call_id \<Rightarrow> controller \<Rightarrow> controller" where
  "delay_done c st =
     (if c < length (calls st) \<and> stage (calls st ! c) = AwaitDelay
      then emit (RuntimeSend (START_CAPTURE (call_streamId (calls st ! c)) (call_cfg (calls st ! c))))
             (set_stage c AwaitOffscreenStart st)
      else st)"

subsection \<open>Events\<close>

text \<open>
  A pending timeout fires: it leaves the pending timeouts and its callback runs. Time itself
  is not modelled: a timeout carries its delay, and any pending timeout may be the next to
  fire.
\<close>

definition timer_fires :: "timer_id \<Rightarrow> controller \<Rightarrow> controller" where
  "timer_fires t st =
     (case find (\<lambda>tm. fst tm = t) (timers st) of
        None \<Rightarrow> st
      | Some (i, delay, action) \<Rightarrow>
          (let st1 = st\<lparr>timers := filter (\<lambda>tm. fst tm \<noteq> t) (timers st)\<rparr> in
           case action of
             ConnectTimeout w \<Rightarrow> connect_timeout w st1
           | ReconnectTimer url attempt \<Rightarrow> reconnect_callback url attempt st1
           | StartDelay c \<Rightarrow> delay_done c st1))"

text \<open>
  What can happen to the service worker: the four messages of its \<^verbatim>\<open>onMessage\<close> listener
  (lines 7 to 15), the two tab listeners (lines 17 and 18), the completion of a browser call
  a \<^verbatim>\<open>startCapture\<close> awaits, the four events of a socket, and a timeout firing. The browser
  fires \<^verbatim>\<open>open\<close> only on a connecting socket and sets it open, fires \<^verbatim>\<open>close\<close> once and sets
  it closed, and delivers messages on an open socket.
\<close>

datatype event =
    MsgStartCapture capture_config
  | MsgStopCapture
  | MsgAudioChunk jsstring metadata
  | MsgCaptureError jsstring
  | TabRemoved nat
  | TabUpdated nat bool
  | Completes call_id awaited
  | SocketOpens ws_id
  | SocketErrors ws_id
  | SocketCloses ws_id
  | SocketMessage ws_id "json option"
  | TimerFires timer_id

definition step :: "event \<Rightarrow> controller \<Rightarrow> controller" where
  "step e st =
     (case e of
        MsgStartCapture cfg \<Rightarrow> startCapture cfg st
      | MsgStopCapture \<Rightarrow> emit (StopResponse \<lparr>ok = True, resp_error = None\<rparr>) (stopCapture Manual st)
      | MsgAudioChunk chunk md \<Rightarrow> handleAudioChunk chunk md st
      | MsgCaptureError err \<Rightarrow> notifyStatus (CaptureError err) Error st
      | TabRemoved i \<Rightarrow> if currentTabId st = Some i then stopCapture TabClosed st else st
      | TabUpdated i loading \<Rightarrow>
          if currentTabId st = Some i \<and> loading then stopCapture TabNavigated st else st
      | Completes c r \<Rightarrow> resume c r st
      | SocketOpens w \<Rightarrow>
          if w < length (sockets st) \<and> ws_readyState (sockets st ! w) = CONNECTING
          then ws_onopen w (update_socket w (\<lambda>x. x\<lparr>ws_readyState := OPEN\<rparr>) st)
          else st
      | SocketErrors w \<Rightarrow>
          if w < length (sockets st) \<and> ws_readyState (sockets st ! w) \<noteq> CLOSED
          then ws_onerror w st
          else st
      | SocketCloses w \<Rightarrow>
          if w < length (sockets st) \<and> ws_readyState (sockets st ! w) \<noteq> CLOSED
          then ws_onclose w (update_socket w (\<lambda>x. x\<lparr>ws_readyState := CLOSED\<rparr>) st)
          else st
      | SocketMessage w parsed \<Rightarrow>
          if w < length (sockets st) \<and> ws_readyState (sockets st ! w) = OPEN
          then handleServerMessage parsed st
          else st
      | TimerFires t \<Rightarrow> timer_fires t st)"

fun run :: "event list \<Rightarrow> controller \<Rightarrow> controller" where
  "run [] st = st"
| "run (e # es) st = run es (step e st)"

section \<open>The renderer: \<^verbatim>\<open>contentScript.js\<close>\<close>

text \<open>
  The overlay the script builds: whether the root carries the class \<^verbatim>\<open>hls-visible\<close>, the
  text of the inner element, the variable \<^verbatim>\<open>hideTimer\<close> with the pending timeouts of the
  page (identifier and duration), the font size and the two position classes. The settings
  restored from the storage when the script is injected go through \<^verbatim>\<open>applySettings\<close>, as those
  of an \<^verbatim>\<open>UPDATE_DISPLAY\<close> message do.
\<close>

record overlay =
  visible :: bool
  textContent :: jsstring
  hideTimer :: "timer_id option"
  hide_timers :: "(timer_id \<times> nat) list"
  next_hide_timer :: timer_id
  fontSize :: "nat option"
  pos_top :: bool
  pos_center :: bool

definition overlay_initial :: overlay where
  "overlay_initial =
     \<lparr>visible = False, textContent = [], hideTimer = None, hide_timers = [],
      next_hide_timer = 1, fontSize = None, pos_top = False, pos_center = False\<rparr>"

definition clear_hide_timer :: "overlay \<Rightarrow> overlay" where
  "clear_hide_timer ov =
     (case hideTimer ov of
        None \<Rightarrow> ov
      | Some i \<Rightarrow> ov\<lparr>hide_timers := filter (\<lambda>tm. fst tm \<noteq> i) (hide_timers ov)\<rparr>)"

text \<open>\<^verbatim>\<open>showSubtitle\<close> (lines 41 to 54).\<close>

definition showSubtitle :: "jsstring \<Rightarrow> overlay \<Rightarrow> overlay" where
  "showSubtitle txt ov =
     (let ov1 = ov\<lparr>visible := False\<rparr>;
          ov2 = ov1\<lparr>textContent := txt\<rparr>;
          ov3 = ov2\<lparr>visible := True\<rparr>;
          ov4 = clear_hide_timer ov3;
          durationMs = max 2500 (length txt * 55)
      in ov4\<lparr>hide_timers := hide_timers ov4 @ [(next_hide_timer ov4, durationMs)],
              hideTimer := Some (next_hide_timer ov4),
              next_hide_timer := next_hide_timer ov4 + 1\<rparr>)"

definition clearSubtitles :: "overlay \<Rightarrow> overlay" where
  "clearSubtitles ov = (clear_hide_timer ov)\<lparr>visible := False, textContent := []\<rparr>"

text \<open>\<^verbatim>\<open>applySettings\<close> (lines 26 to 35): a font size of 0 and a missing position are falsy.\<close>

definition applySettings :: "nat \<Rightarrow> overlay_pos option \<Rightarrow> overlay \<Rightarrow> overlay" where
  "applySettings fs pos ov =
     (let ov1 = (if fs \<noteq> 0 then ov\<lparr>fontSize := Some fs\<rparr> else ov) in
      case pos of
        None \<Rightarrow> ov1
      | Some p \<Rightarrow> ov1\<lparr>pos_top := (p = Top), pos_center := (p = Center)\<rparr>)"

text \<open>
  \<^verbatim>\<open>msg.text?.trim()\<close>: \<^verbatim>\<open>undefined\<close> for a missing or \<^verbatim>\<open>null\<close> text, the trimmed string for a
  string; for any other value there is no \<^verbatim>\<open>trim\<close> to call and the listener ends with a
  TypeError, before it changed anything.
\<close>

definition on_message :: "tab_msg \<Rightarrow> overlay \<Rightarrow> overlay" where
  "on_message msg ov =
     (case msg of
        SUBTITLE txt start endSec \<Rightarrow>
          (case txt of
             Some (JStr s) \<Rightarrow> if trim s \<noteq> [] then showSubtitle (trim s) ov else ov
           | _ \<Rightarrow> ov)
      | CLEAR_SUBTITLES \<Rightarrow> clearSubtitles ov
      | UPDATE_DISPLAY fs pos \<Rightarrow> applySettings fs pos ov
      | OtherMessage \<Rightarrow> ov)"


section \<open>Facts about the platform functions\<close>

text \<open>The sextets of the encoding without the padding, and the number of padding characters.\<close>

fun enc_sextets :: "byte list \<Rightarrow> nat list" where
  "enc_sextets (x # y # z # rest) =
     [unat x div 4, (unat x mod 4) * 16 + unat y div 16,
      (unat y mod 16) * 4 + unat z div 64, unat z mod 64] @ enc_sextets rest"
| "enc_sextets [x, y] =
     [unat x div 4, (unat x mod 4) * 16 + unat y div 16, (unat y mod 16) * 4]"
| "enc_sextets [x] = [unat x div 4, (unat x mod 4) * 16]"
| "enc_sextets [] = []"

fun pad_count :: "byte list \<Rightarrow> nat" where
  "pad_count (x # y # z # rest) = pad_count rest"
| "pad_count [x, y] = 1"
| "pad_count [x] = 2"
| "pad_count [] = 0"

lemma unat_byte_less: "unat (x :: byte) < 256"
  using unsigned_less [of x, where 'a = nat] by simp

lemma encode_split:
  "base64_encode bs = map b64_char (enc_sextets bs) @ replicate (pad_count bs) 61"
  by (induction bs rule: base64_encode.induct) (simp_all add: numeral_2_eq_2)

lemma enc_sextets_bound: "s \<in> set (enc_sextets bs) \<Longrightarrow> s < 64"
proof (induction bs arbitrary: s rule: enc_sextets.induct)
  case (1 x y z rest)
  have "unat x < 256" "unat y < 256" "unat z < 256" by (rule unat_byte_less)+
  with 1 show ?case by auto
next
  case (2 x y)
  have "unat x < 256" "unat y < 256" by (rule unat_byte_less)+
  with 2 show ?case by auto
next
  case (3 x)
  have "unat x < 256" by (rule unat_byte_less)
  with 3 show ?case by auto
qed simp

lemma sextet_arith:
  fixes x y z :: nat
  shows "y < 256 \<Longrightarrow> (x mod 4 * 16 + y div 16) div 16 = x mod 4"
    and "y < 256 \<Longrightarrow> (x mod 4 * 16 + y div 16) mod 16 = y div 16"
    and "z < 256 \<Longrightarrow> (y mod 16 * 4 + z div 64) div 4 = y mod 16"
    and "z < 256 \<Longrightarrow> (y mod 16 * 4 + z div 64) mod 4 = z div 64"
  by (simp_all add: less_mult_imp_div_less)

lemma decode_enc_sextets: "decode_sextets (enc_sextets bs) = bs"
proof (induction bs rule: enc_sextets.induct)
  case (1 x y z rest)
  then show ?case
    using unat_byte_less [of y] unat_byte_less [of z] by (simp add: sextet_arith)
next
  case (2 x y)
  then show ?case using unat_byte_less [of y] by (simp add: sextet_arith)
qed simp_all

lemma b64_code_less: "b64_code i < 123"
  by (auto simp: b64_code_def)

lemma unat_b64_char: "unat (b64_char i) = b64_code i"
proof -
  have "b64_code i < 2 ^ 16" using b64_code_less [of i] by simp
  then show ?thesis by (simp add: b64_char_def unat_of_nat)
qed

lemma b64_index_char: "s < 64 \<Longrightarrow> b64_index (b64_char s) = Some s"
  unfolding b64_index_def Let_def unat_b64_char b64_code_def by auto

lemma b64_index_pad: "b64_index 61 = None"
  by (simp add: b64_index_def)

lemma b64_index_ws: "ascii_whitespace c \<Longrightarrow> b64_index c = None"
  by (auto simp: ascii_whitespace_def b64_index_def)

lemma b64_char_not_pad: "s < 64 \<Longrightarrow> b64_char s \<noteq> 61"
  using b64_index_char [of s] b64_index_pad by auto

lemma b64_char_not_ws: "s < 64 \<Longrightarrow> \<not> ascii_whitespace (b64_char s)"
  using b64_index_char [of s] b64_index_ws [of "b64_char s"] by auto

lemma those_map_Some:
  "(\<And>x. x \<in> set xs \<Longrightarrow> f (g x) = Some x) \<Longrightarrow> those (map f (map g xs)) = Some xs"
  by (induction xs) simp_all

lemma enc_sextets_length: "length (enc_sextets bs) mod 4 \<noteq> 1"
  by (induction bs rule: enc_sextets.induct) simp_all

lemma encode_length: "length (base64_encode bs) mod 4 = 0"
  by (induction bs rule: base64_encode.induct) simp_all

lemma strip_padding_encode:
  "strip_padding (base64_encode bs) = map b64_char (enc_sextets bs)"
proof -
  let ?xs = "map b64_char (enc_sextets bs)"
  have nopad: "c \<noteq> 61" if "c \<in> set ?xs" for c
    using that enc_sextets_bound b64_char_not_pad by auto
  have len: "(length ?xs + pad_count bs) mod 4 = 0"
    using encode_length [of bs] by (simp add: encode_split)
  have pc: "pad_count bs \<le> 2"
    by (induction bs rule: pad_count.induct) simp_all
  have lastx: "last ?xs \<noteq> 61" if "?xs \<noteq> []"
    using that nopad last_in_set by blast
  consider "pad_count bs = 0" | "pad_count bs = 1" | "pad_count bs = 2"
    using pc by linarith
  then show ?thesis
  proof cases
    case 1
    then show ?thesis using lastx by (auto simp: encode_split strip_padding_def)
  next
    case 2
    then have ne: "?xs \<noteq> []" using len by auto
    show ?thesis using 2 lastx [OF ne] ne len
      by (simp add: encode_split strip_padding_def butlast_append)
  next
    case 3
    then show ?thesis using len
      by (simp add: encode_split strip_padding_def butlast_append numeral_2_eq_2)
  qed
qed

lemma encode_no_ws: "filter (\<lambda>c. \<not> ascii_whitespace c) (base64_encode bs) = base64_encode bs"
proof -
  have "\<not> ascii_whitespace c" if "c \<in> set (base64_encode bs)" for c
  proof -
    from that have "c \<in> set (map b64_char (enc_sextets bs)) \<or> c = 61"
      by (auto simp: encode_split)
    then show ?thesis
      using enc_sextets_bound b64_char_not_ws by (auto simp: ascii_whitespace_def)
  qed
  then show ?thesis by (simp add: filter_id_conv)
qed

lemma atob_base64_encode: "atob (base64_encode bs) = Some (map ucast bs)"
proof -
  have idx: "those (map b64_index (map b64_char (enc_sextets bs))) = Some (enc_sextets bs)"
    by (rule those_map_Some) (simp add: enc_sextets_bound b64_index_char)
  show ?thesis
    using idx enc_sextets_length [of bs]
    by (simp add: atob_def encode_no_ws strip_padding_encode decode_enc_sextets)
qed

lemma ucast_byte_id: "(ucast (ucast (b :: byte) :: code_unit) :: byte) = b"
  by (simp add: ucast_up_ucast_id is_up)

lemma ucast_byte_le: "\<not> 0xFF < (ucast (b :: byte) :: code_unit)"
proof -
  have "unat (ucast b :: code_unit) = unat b"
    by (simp add: unsigned_ucast_eq take_bit_nat_eq_self_iff unat_byte_less [simplified]
        order_less_trans [OF unat_byte_less])
  then show ?thesis using unat_byte_less [of b] by (simp add: word_less_nat_alt)
qed

lemma btoa_bytes: "btoa (map ucast (bs :: byte list)) = Some (base64_encode bs)"
  by (simp add: btoa_def list_ex_iff ucast_byte_le ucast_byte_id o_def)

lemma arrayBufferToBase64_eq: "arrayBufferToBase64 bs = Some (base64_encode bs)"
  by (simp add: arrayBufferToBase64_def btoa_bytes)

section \<open>The scan for the cluster marker\<close>

text \<open>The four bytes at offset \<open>k\<close> of a buffer are the marker.\<close>

definition marker_at :: "byte list \<Rightarrow> nat \<Rightarrow> bool" where
  "marker_at view k \<longleftrightarrow> take 4 (drop k view) = [0x1F, 0x43, 0xB6, 0x75]"

lemma marker_at_iff:
  "marker_at view k \<longleftrightarrow>
     k + 3 < length view \<and> view ! k = 0x1F \<and> view ! (k + 1) = 0x43 \<and>
     view ! (k + 2) = 0xB6 \<and> view ! (k + 3) = 0x75"
proof (cases "k + 3 < length view")
  case True
  then have "drop k view =
      view ! k # view ! Suc k # view ! Suc (Suc k) # view ! Suc (Suc (Suc k)) # drop (Suc (Suc (Suc (Suc k)))) view"
    by (simp add: Cons_nth_drop_Suc)
  then have "take 4 (drop k view) = [view ! k, view ! (k + 1), view ! (k + 2), view ! (k + 3)]"
    by (simp add: numeral_eq_Suc)
  then show ?thesis using True by (simp add: marker_at_def)
next
  case False
  have "take 4 (drop k view) \<noteq> [0x1F, 0x43, 0xB6, 0x75]"
  proof
    assume "take 4 (drop k view) = [0x1F, 0x43, 0xB6, 0x75]"
    then have "length (take 4 (drop k view)) = 4" by simp
    with False show False by simp
  qed
  then show ?thesis using False by (simp add: marker_at_def)
qed

lemma loop_out:
  "\<not> int i < int (length view) - 3 \<Longrightarrow> findClusterOffset_loop view i = - 1"
  by (subst findClusterOffset_loop.simps) simp

lemma loop_hit:
  "int i < int (length view) - 3 \<Longrightarrow>
   view ! i = 0x1F \<and> view ! (i + 1) = 0x43 \<and> view ! (i + 2) = 0xB6 \<and> view ! (i + 3) = 0x75 \<Longrightarrow>
   findClusterOffset_loop view i = int i"
  by (subst findClusterOffset_loop.simps) simp

lemma loop_miss:
  "int i < int (length view) - 3 \<Longrightarrow>
   \<not> (view ! i = 0x1F \<and> view ! (i + 1) = 0x43 \<and> view ! (i + 2) = 0xB6 \<and> view ! (i + 3) = 0x75) \<Longrightarrow>
   findClusterOffset_loop view i = findClusterOffset_loop view (i + 1)"
  by (subst findClusterOffset_loop.simps) auto

lemma loop_found:
  "findClusterOffset_loop view i = int k \<Longrightarrow>
     i \<le> k \<and> marker_at view k \<and> (\<forall>j. i \<le> j \<and> j < k \<longrightarrow> \<not> marker_at view j)"
proof (induction view i rule: findClusterOffset_loop.induct)
  case (1 view i)
  show ?case
  proof (cases "int i < int (length view) - 3")
    case False
    with "1.prems" show ?thesis by (simp add: loop_out)
  next
    case inb: True
    show ?thesis
    proof (cases "view ! i = 0x1F \<and> view ! (i + 1) = 0x43 \<and> view ! (i + 2) = 0xB6 \<and> view ! (i + 3) = 0x75")
      case True
      from loop_hit [OF inb True] "1.prems" have "k = i" by simp
      moreover have "marker_at view i" using True inb by (simp add: marker_at_iff)
      ultimately show ?thesis by auto
    next
      case False
      from loop_miss [OF inb False] "1.prems"
      have "findClusterOffset_loop view (i + 1) = int k" by simp
      from "1.IH" [OF inb False this]
      have ih: "i + 1 \<le> k" "marker_at view k" "\<forall>j. i + 1 \<le> j \<and> j < k \<longrightarrow> \<not> marker_at view j"
        by auto
      have ni: "\<not> marker_at view i" using False by (simp add: marker_at_iff)
      have "\<not> marker_at view j" if "i \<le> j" "j < k" for j
      proof (cases "j = i")
        case True
        with ni show ?thesis by simp
      next
        case False
        with that have "i + 1 \<le> j" by simp
        with ih(3) that show ?thesis by blast
      qed
      then show ?thesis using ih by auto
    qed
  qed
qed

lemma loop_range: "findClusterOffset_loop view i = - 1 \<or> int i \<le> findClusterOffset_loop view i"
proof (induction view i rule: findClusterOffset_loop.induct)
  case (1 view i)
  show ?case
  proof (cases "int i < int (length view) - 3")
    case False
    then show ?thesis by (simp add: loop_out)
  next
    case inb: True
    show ?thesis
    proof (cases "view ! i = 0x1F \<and> view ! (i + 1) = 0x43 \<and> view ! (i + 2) = 0xB6 \<and> view ! (i + 3) = 0x75")
      case True
      from loop_hit [OF inb True] show ?thesis by simp
    next
      case False
      from "1.IH" [OF inb False] loop_miss [OF inb False] show ?thesis by auto
    qed
  qed
qed

lemma loop_absent:
  "findClusterOffset_loop view i = - 1 \<Longrightarrow> i \<le> j \<Longrightarrow> \<not> marker_at view j"
proof (induction view i rule: findClusterOffset_loop.induct)
  case (1 view i)
  show ?case
  proof (cases "int i < int (length view) - 3")
    case False
    then show ?thesis using "1.prems"(2) by (simp add: marker_at_iff)
  next
    case inb: True
    have nm: "\<not> (view ! i = 0x1F \<and> view ! (i + 1) = 0x43 \<and> view ! (i + 2) = 0xB6 \<and> view ! (i + 3) = 0x75)"
    proof
      assume c: "view ! i = 0x1F \<and> view ! (i + 1) = 0x43 \<and> view ! (i + 2) = 0xB6 \<and> view ! (i + 3) = 0x75"
      from loop_hit [OF inb c] "1.prems"(1) show False by simp
    qed
    have rec: "findClusterOffset_loop view (i + 1) = - 1"
      using loop_miss [OF inb nm] "1.prems"(1) by simp
    show ?thesis
    proof (cases "j = i")
      case True
      then show ?thesis using nm by (simp add: marker_at_iff)
    next
      case False
      then have "i + 1 \<le> j" using "1.prems"(2) by simp
      from "1.IH" [OF inb nm rec this] show ?thesis .
    qed
  qed
qed

lemma findClusterOffset_first:
  assumes "marker_at view k" and "\<forall>j<k. \<not> marker_at view j"
  shows "findClusterOffset view = int k"
proof -
  let ?r = "findClusterOffset_loop view 0"
  have "?r \<noteq> - 1" using loop_absent [of view 0 k] assms(1) by auto
  with loop_range [of view 0] have "0 \<le> ?r" by auto
  then obtain m where m: "?r = int m" using nonneg_int_cases by blast
  from loop_found [OF m] have mk: "marker_at view m" "\<forall>j. j < m \<longrightarrow> \<not> marker_at view j" by auto
  have "m = k" using mk assms by (meson linorder_neqE_nat)
  with m show ?thesis by (simp add: findClusterOffset_def)
qed


section \<open>Header splicing\<close>

fun produced :: "byte list option list \<Rightarrow> byte list list" where
  "produced [] = []"
| "produced (None # ds) = produced ds"
| "produced (Some b # ds) = (if b = [] then produced ds else b # produced ds)"

fun payload :: "runtime_msg \<Rightarrow> jsstring" where
  "payload (AUDIO_CHUNK chunk md) = chunk"
| "payload _ = []"

fun chunk_number :: "runtime_msg \<Rightarrow> nat" where
  "chunk_number (AUDIO_CHUNK chunk md) = md_index md"
| "chunk_number _ = 0"

definition splice :: "byte list option \<Rightarrow> byte list \<Rightarrow> byte list" where
  "splice header b = (case header of Some h \<Rightarrow> h @ b | None \<Rightarrow> b)"

lemma ondataavailable_skip:
  "ondataavailable None s = (s, [])" "ondataavailable (Some []) s = (s, [])"
  by (simp_all add: ondataavailable_def split: prod.splits)

lemma ondataavailable_first:
  assumes "chunkIndex c = 0" "b \<noteq> []"
  shows "fst (fst (ondataavailable (Some b) (g, c))) =
           (if findClusterOffset b > 0 then g\<lparr>webmHeader := Some (take (nat (findClusterOffset b)) b)\<rparr> else g)"
    and "chunkIndex (snd (fst (ondataavailable (Some b) (g, c)))) = 1"
    and "map payload (snd (ondataavailable (Some b) (g, c))) = [base64_encode b]"
    and "map chunk_number (snd (ondataavailable (Some b) (g, c))) = [0]"
  using assms by (simp_all add: ondataavailable_def Let_def arrayBufferToBase64_eq)

lemma ondataavailable_later:
  assumes "chunkIndex c > 0" "b \<noteq> []"
  shows "fst (fst (ondataavailable (Some b) (g, c))) = g"
    and "chunkIndex (snd (fst (ondataavailable (Some b) (g, c)))) = chunkIndex c + 1"
    and "map payload (snd (ondataavailable (Some b) (g, c))) = [base64_encode (splice (webmHeader g) b)]"
    and "map chunk_number (snd (ondataavailable (Some b) (g, c))) = [chunkIndex c]"
  using assms by (simp_all add: ondataavailable_def Let_def arrayBufferToBase64_eq splice_def split: option.splits)

lemma upt_shift: "[n ..< n + Suc k] = n # [Suc n ..< Suc n + k]"
  by (simp add: upt_rec)

lemma upt_shift0: "[0 ..< Suc k] = 0 # [Suc 0 ..< Suc 0 + k]"
  by (simp add: upt_rec)

lemma run_capturer_later:
  "chunkIndex c > 0 \<Longrightarrow>
     fst (fst (run_capturer ds (g, c))) = g \<and>
     map payload (snd (run_capturer ds (g, c))) = map (\<lambda>b. base64_encode (splice (webmHeader g) b)) (produced ds) \<and>
     map chunk_number (snd (run_capturer ds (g, c))) = [chunkIndex c ..< chunkIndex c + length (produced ds)]"
proof (induction ds arbitrary: c)
  case Nil
  then show ?case by simp
next
  case (Cons d ds)
  show ?case
  proof (cases "d = None \<or> d = Some []")
    case True
    then show ?thesis using Cons by (auto simp: ondataavailable_skip)
  next
    case False
    then obtain b where b: "d = Some b" "b \<noteq> []" by auto
    obtain g1 c1 m1 where o: "ondataavailable (Some b) (g, c) = ((g1, c1), m1)"
      by (metis prod.exhaust)
    from ondataavailable_later [OF Cons.prems b(2), of g] o
    have f: "g1 = g" "chunkIndex c1 = Suc (chunkIndex c)"
      "map payload m1 = [base64_encode (splice (webmHeader g) b)]"
      "map chunk_number m1 = [chunkIndex c]" by simp_all
    obtain s2 m2 where r: "run_capturer ds (g, c1) = (s2, m2)"
      by (metis prod.exhaust)
    have "chunkIndex c1 > 0" using f by simp
    from Cons.IH [OF this, unfolded r] f(2)
    have ih: "fst s2 = g"
      "map payload m2 = map (\<lambda>b. base64_encode (splice (webmHeader g) b)) (produced ds)"
      "map chunk_number m2 = [Suc (chunkIndex c) ..< Suc (chunkIndex c) + length (produced ds)]"
      by simp_all
    have res: "run_capturer (d # ds) (g, c) = (s2, m1 @ m2)"
      using b o r f(1) by simp
    have pr: "produced (d # ds) = b # produced ds" using b by simp
    show ?thesis
      unfolding res pr using ih f(3,4) by (simp only: fst_conv snd_conv map_append list.map length_Cons upt_shift append_Cons append_Nil simp_thms)
  qed
qed

lemma run_capturer_first:
  fixes g :: offscreen and first :: "byte list"
  assumes "chunkIndex c = 0" "first \<noteq> []"
  defines "g1 \<equiv> (if findClusterOffset first > 0
                  then g\<lparr>webmHeader := Some (take (nat (findClusterOffset first)) first)\<rparr> else g)"
  shows "fst (fst (ondataavailable (Some first) (g, c))) = g1"
    and "fst (fst (run_capturer (Some first # later) (g, c))) = g1"
    and "map payload (snd (run_capturer (Some first # later) (g, c))) =
           base64_encode first # map (\<lambda>b. base64_encode (splice (webmHeader g1) b)) (produced later)"
    and "map chunk_number (snd (run_capturer (Some first # later) (g, c))) =
           [0 ..< Suc (length (produced later))]"
proof -
  obtain g' c1 m1 where o: "ondataavailable (Some first) (g, c) = ((g', c1), m1)"
    by (metis prod.exhaust)
  from ondataavailable_first [OF assms(1,2), of g] o
  have f: "g' = g1" "chunkIndex c1 = Suc 0" "map payload m1 = [base64_encode first]"
    "map chunk_number m1 = [0]" by (simp_all add: g1_def)
  obtain s2 m2 where r: "run_capturer later (g1, c1) = (s2, m2)"
    by (metis prod.exhaust)
  have "chunkIndex c1 > 0" using f by simp
  from run_capturer_later [OF this, of later g1, unfolded r f(2)]
  have l: "fst s2 = g1"
    "map payload m2 = map (\<lambda>b. base64_encode (splice (webmHeader g1) b)) (produced later)"
    "map chunk_number m2 = [Suc 0 ..< Suc 0 + length (produced later)]"
    by (simp_all only: fst_conv snd_conv simp_thms)
  have res: "run_capturer (Some first # later) (g, c) = (s2, m1 @ m2)"
    using o r f(1) by simp
  show "fst (fst (ondataavailable (Some first) (g, c))) = g1" using o f(1) by simp
  show "fst (fst (run_capturer (Some first # later) (g, c))) = g1" using res l(1) by simp
  show "map payload (snd (run_capturer (Some first # later) (g, c))) =
           base64_encode first # map (\<lambda>b. base64_encode (splice (webmHeader g1) b)) (produced later)"
    unfolding res using f(3) l(2) by simp
  show "map chunk_number (snd (run_capturer (Some first # later) (g, c))) =
           [0 ..< Suc (length (produced later))]"
    unfolding res snd_conv map_append f(4) l(3) upt_shift0 by (simp only: append_Cons append_Nil)
qed

lemma offscreen_startCapture_state:
  "offscreen_startCapture (Some tracks) mime cfg g0 = (g, Some c) \<Longrightarrow>
     webmHeader g = None \<and> chunkIndex c = 0"
  by (auto simp: offscreen_startCapture_def Let_def)


definition example_closure :: "offscreen \<times> chunk_closure" where
  "example_closure =
     (offscreen_initial\<lparr>captureStream := Some [0], liveAudio := Some (), mediaRecorder := Some Recording\<rparr>,
      \<lparr>chunkIndex = 0, chunkStartSec = 0, chunkMs = 5000, mimeType = js ''audio/webm''\<rparr>)"

lemma example_closure_start:
  "offscreen_startCapture (Some [0]) (js ''audio/webm'') \<lparr>chunkSize = 5, wsUrl = []\<rparr> offscreen_initial
     = (fst example_closure, Some (snd example_closure))"
  by (simp add: offscreen_startCapture_def example_closure_def offscreen_initial_def)


text \<open>
  C10. If the first non-empty block starts with the marker, \<^verbatim>\<open>findClusterOffset\<close> returns 0,
  the guard \<^verbatim>\<open>clusterOffset > 0\<close> fails, no header is cached, and every block is sent as it
  is, as when the marker is absent.
\<close>

theorem marker_at_offset_zero:
  assumes "offscreen_startCapture (Some tracks) mime cfg g0 = (g, Some c)"
    and "marker_at first 0"
  shows "findClusterOffset first = 0 \<and>
         webmHeader (fst (fst (ondataavailable (Some first) (g, c)))) = None \<and>
         webmHeader (fst (fst (run_capturer (Some first # later) (g, c)))) = None \<and>
         map payload (snd (run_capturer (Some first # later) (g, c))) =
           map base64_encode (first # produced later)"
proof -
  from offscreen_startCapture_state [OF assms(1)]
  have init: "webmHeader g = None" "chunkIndex c = 0" by simp_all
  have ne: "first \<noteq> []" using assms(2) by (auto simp: marker_at_def)
  have off: "findClusterOffset first = 0"
    using findClusterOffset_first [OF assms(2)] by simp
  note rc = run_capturer_first [OF init(2) ne]
  show ?thesis using rc init(1) by (simp add: off splice_def)
qed

theorem marker_at_offset_zero_witness:
  "findClusterOffset [0x1F, 0x43, 0xB6, 0x75, 5] = 0 \<and>
   map payload (snd (run_capturer [Some [0x1F, 0x43, 0xB6, 0x75, 5], Some [7, 8]] example_closure)) =
     [base64_encode [0x1F, 0x43, 0xB6, 0x75, 5], base64_encode [7, 8]]"
proof -
  have m: "marker_at [0x1F, 0x43, 0xB6, 0x75, 5] 0" by (simp add: marker_at_def)
  show ?thesis
    using marker_at_offset_zero [OF example_closure_start m, of "[Some [7, 8]]"] by simp
qed

section \<open>The payload between capturer and controller\<close>

lemma ondataavailable_msg:
  assumes "b \<noteq> []"
  shows "\<exists>m. snd (ondataavailable (Some b) (g, c)) =
           [AUDIO_CHUNK (base64_encode (if chunkIndex c = 0 then b else splice (webmHeader g) b)) m]"
  using assms
  by (simp add: ondataavailable_def Let_def arrayBufferToBase64_eq splice_def split: option.splits)

lemma handleAudioChunk_encoded:
  assumes "socket st = Some w" "w < length (sockets st)" "ws_readyState (sockets st ! w) = OPEN"
  shows "handleAudioChunk (base64_encode segment) md st =
           emit (SocketSend w (BinaryFrame segment)) (emit (SocketSend w (TextFrame md)) st)"
  using assms by (simp add: handleAudioChunk_def atob_base64_encode Let_def ucast_byte_id o_def)

text \<open>
  C9. \<^verbatim>\<open>arrayBufferToBase64\<close> never throws, \<^verbatim>\<open>atob\<close> of its result is the binary string of
  the same bytes, and \<^verbatim>\<open>handleAudioChunk\<close>, given that text while the socket is open, writes
  the metadata frame followed by a binary frame that holds exactly the bytes the capturer
  encoded. For a block \<open>b\<close> handled by \<^verbatim>\<open>ondataavailable\<close> those bytes are \<open>b\<close> itself for
  the first block and the cached header followed by \<open>b\<close> afterwards.
\<close>

theorem payload_round_trip:
  assumes "socket st = Some w" "w < length (sockets st)" "ws_readyState (sockets st ! w) = OPEN"
  shows "arrayBufferToBase64 segment = Some (base64_encode segment) \<and>
         atob (base64_encode segment) = Some (map ucast segment) \<and>
         out (handleAudioChunk (base64_encode segment) md st) =
           out st @ [SocketSend w (TextFrame md), SocketSend w (BinaryFrame segment)] \<and>
         (b \<noteq> [] \<longrightarrow>
            (\<exists>chunk m. snd (ondataavailable (Some b) (g, c)) = [AUDIO_CHUNK chunk m] \<and>
               out (step (MsgAudioChunk chunk m) st) =
                 out st @ [SocketSend w (TextFrame m),
                           SocketSend w (BinaryFrame (if chunkIndex c = 0 then b
                                                      else splice (webmHeader g) b))]))"
proof -
  have frames: "out (handleAudioChunk (base64_encode x) m st) =
      out st @ [SocketSend w (TextFrame m), SocketSend w (BinaryFrame x)]" for x m
    by (simp add: handleAudioChunk_encoded [OF assms] emit_def)
  have "\<exists>chunk m. snd (ondataavailable (Some b) (g, c)) = [AUDIO_CHUNK chunk m] \<and>
               out (step (MsgAudioChunk chunk m) st) =
                 out st @ [SocketSend w (TextFrame m),
                           SocketSend w (BinaryFrame (if chunkIndex c = 0 then b
                                                      else splice (webmHeader g) b))]"
    if "b \<noteq> []"
  proof -
    from ondataavailable_msg [OF that, of g c] obtain m where
      m: "snd (ondataavailable (Some b) (g, c)) =
           [AUDIO_CHUNK (base64_encode (if chunkIndex c = 0 then b else splice (webmHeader g) b)) m]"
      by blast
    show ?thesis
      by (rule exI, rule exI, rule conjI, rule m) (simp only: step_def event.case frames)
  qed
  then show ?thesis
    by (simp add: arrayBufferToBase64_eq atob_base64_encode frames)
qed

text \<open>
  A session as an example: a start request, the active tab 7, the renderer injected, which
  leaves the controller connecting; and the same with the socket open.
\<close>

definition example_config :: capture_config where
  "example_config = \<lparr>chunkSize = 5, wsUrl = js ''ws://h''\<rparr>"

definition started_trace :: "event list" where
  "started_trace =
     [MsgStartCapture example_config, Completes 0 (TabsQueryResult (Some 7)),
      Completes 0 ExecuteScriptSettled]"

lemmas controller_defs =
  step_def startCapture_def resume_def timer_fires_def stopCapture_def
  ws_onopen_def ws_onerror_def ws_onclose_def connect_timeout_def reconnect_callback_def
  openWebSocket_def settle_def after_open_def fail_start_def delay_done_def start_delay_def
  emit_def setTimeout_def clearTimeout_def update_socket_def ws_close_def set_stage_def
  notifyStatus_def reconnect_delay_def controller_initial_def Let_def

definition open_controller :: controller where
  "open_controller = run (started_trace @ [SocketOpens 0]) controller_initial"

lemma open_controller_eq:
  "open_controller =
     \<lparr>socket = Some 0, currentTabId = Some 7, config = Some example_config,
      wsReconnectTimer = None, isRunning = True,
      sockets = [\<lparr>ws_url = js ''ws://h'', ws_attempt = 0, ws_readyState = OPEN,
                  ws_timeout = 1, ws_promise = Resolved, ws_waiter = StartCall 0\<rparr>],
      timers = [], nextTimer = 2,
      calls = [\<lparr>call_cfg = example_config, stage = AwaitStreamId, call_streamId = []\<rparr>],
      out = [ApiCall 0 TabsQuery, ApiCall 0 (ExecuteScript 7),
             RuntimeSend (STATUS_UPDATE Connected Active),
             ApiCall 0 (GetMediaStreamId (Some 7))]\<rparr>"
  by (simp add: open_controller_def started_trace_def example_config_def controller_defs)

theorem payload_round_trip_witness:
  "out (handleAudioChunk (base64_encode [1, 2, 3, 4]) \<lparr>md_index = 1, md_start = 5, md_end = 10, md_mimeType = []\<rparr>
          open_controller) =
     out open_controller @
     [SocketSend 0 (TextFrame \<lparr>md_index = 1, md_start = 5, md_end = 10, md_mimeType = []\<rparr>),
      SocketSend 0 (BinaryFrame [1, 2, 3, 4])]
   \<and> (\<exists>chunk m. snd (ondataavailable (Some [9]) (fst example_closure, snd example_closure)) = [AUDIO_CHUNK chunk m] \<and>
               out (step (MsgAudioChunk chunk m) open_controller) =
                 out open_controller @ [SocketSend 0 (TextFrame m), SocketSend 0 (BinaryFrame [9])])"
proof -
  have s: "socket open_controller = Some 0" "0 < length (sockets open_controller)"
    "ws_readyState (sockets open_controller ! 0) = OPEN"
    by (simp_all add: open_controller_eq)
  have c0: "chunkIndex (snd example_closure) = 0" by (simp add: example_closure_def)
  show ?thesis
    using payload_round_trip [OF s(1,2,3), of "[1, 2, 3, 4]"
        "\<lparr>md_index = 1, md_start = 5, md_end = 10, md_mimeType = []\<rparr>" "[9]"
        "fst example_closure" "snd example_closure"]
    by (simp add: c0)
qed

section \<open>The reconnect delay\<close>

lemma reconnect_delay_cap: "3 \<le> n \<Longrightarrow> reconnect_delay n = 12000"
proof -
  assume "3 \<le> n"
  then have "(2::nat) ^ 3 \<le> 2 ^ n" by (rule power_increasing) simp
  then have "(12000::nat) \<le> 2000 * 2 ^ n" by simp
  then show ?thesis by (simp add: reconnect_delay_def)
qed

lemma ws_onclose_running:
  assumes "isRunning st"
  shows "ws_onclose w st =
     st\<lparr>out := out st @ [RuntimeSend (STATUS_UPDATE (ReconnectingIn (reconnect_delay (ws_attempt (sockets st ! w)))) Error)],
        timers := timers st @ [(nextTimer st, reconnect_delay (ws_attempt (sockets st ! w)),
                               ReconnectTimer (ws_url (sockets st ! w)) (ws_attempt (sockets st ! w)))],
        nextTimer := nextTimer st + 1,
        wsReconnectTimer := Some (nextTimer st)\<rparr>"
  using assms by (simp add: ws_onclose_def Let_def notifyStatus_def emit_def setTimeout_def)

text \<open>
  C5. The delay of line 100 is \<open>min (2000 * 2 ^ attempt) 12000\<close>: 2000, 4000, 8000, 12000,
  12000 for the attempts 0 to 4, and 12000 for every attempt from 3 on. It is the delay of
  the timeout that \<^verbatim>\<open>onclose\<close> schedules on a running session.
\<close>

theorem reconnect_backoff:
  "reconnect_delay 0 = 2000 \<and> reconnect_delay 1 = 4000 \<and> reconnect_delay 2 = 8000 \<and>
   reconnect_delay 3 = 12000 \<and> reconnect_delay 4 = 12000 \<and>
   reconnect_delay n = min (2000 * 2 ^ n) 12000 \<and>
   (3 \<le> n \<longrightarrow> reconnect_delay n = 12000) \<and>
   (isRunning st \<longrightarrow>
      timers (ws_onclose w st) =
        timers st @ [(nextTimer st, reconnect_delay (ws_attempt (sockets st ! w)),
                      ReconnectTimer (ws_url (sockets st ! w)) (ws_attempt (sockets st ! w)))])"
proof -
  have "reconnect_delay 0 = 2000" "reconnect_delay 1 = 4000" "reconnect_delay 2 = 8000"
    "reconnect_delay 3 = 12000" "reconnect_delay 4 = 12000"
    by (simp_all add: reconnect_delay_def)
  then show ?thesis
    using reconnect_delay_cap [of n] by (simp add: ws_onclose_running) (simp add: reconnect_delay_def)
qed

theorem reconnect_backoff_witness:
  "reconnect_delay 7 = 12000 \<and>
   timers (ws_onclose 0 open_controller) = [(2, 2000, ReconnectTimer (js ''ws://h'') 0)]"
proof -
  have r: "isRunning open_controller" "timers open_controller = []" "nextTimer open_controller = 2"
    "ws_attempt (sockets open_controller ! 0) = 0" "ws_url (sockets open_controller ! 0) = js ''ws://h''"
    by (simp_all add: open_controller_eq)
  show ?thesis
    using reconnect_backoff [of 7 open_controller 0] by (simp add: r)
qed

section \<open>Subtitles with blank text\<close>

lemma trim_blank:
  assumes "list_all js_whitespace s"
  shows "trim s = []"
proof -
  have "\<forall>x\<in>set s. js_whitespace x"
    using assms by (simp add: list_all_iff)
  then have "dropWhile js_whitespace s = []"
    by (rule dropWhile_eq_Nil_conv [THEN iffD2])
  then show ?thesis by (simp only: trim_def rev.simps dropWhile.simps)
qed

lemma subtitle_not_error: "js ''subtitle'' \<noteq> js ''error''"
  by (simp add: js_def)

lemma handleServerMessage_blank:
  assumes "get_prop msg (js ''event'') = Some (JStr (js ''subtitle''))"
    and "get_prop msg (js ''text'') = Some (JStr txt)"
    and "list_all js_whitespace txt"
  shows "handleServerMessage (Some msg) st = st"
proof -
  have c: "subtitle_condition msg = Some False"
    using assms by (simp add: subtitle_condition_def trim_blank)
  obtain kvs where "msg = JObj kvs" using assms(1) by (cases msg) simp_all
  then show ?thesis
    using c assms(1) subtitle_not_error by (simp add: handleServerMessage_def)
qed

text \<open>
  C7. A subtitle event whose text is empty or made of whitespace only (the code units that
  \<^verbatim>\<open>trim\<close> strips) changes nothing in the controller: no message is sent to the tab, no
  preview, nothing stored. Were such a text relayed all the same, the listener of the
  renderer would leave the overlay as it is.
\<close>

theorem blank_subtitle_dropped:
  assumes "get_prop msg (js ''event'') = Some (JStr (js ''subtitle''))"
    and "get_prop msg (js ''text'') = Some (JStr txt)"
    and "list_all js_whitespace txt"
  shows "handleServerMessage (Some msg) st = st \<and>
         step (SocketMessage w (Some msg)) st = st \<and>
         on_message (SUBTITLE (Some (JStr txt)) a b) ov = ov"
  using handleServerMessage_blank [OF assms] assms(3)
  by (simp add: step_def on_message_def trim_blank)

theorem blank_subtitle_dropped_witness:
  "step (SocketMessage 0
      (Some (JObj [(js ''event'', JStr (js ''subtitle'')), (js ''text'', JStr (js ''   ''))])))
      open_controller = open_controller
   \<and> handleServerMessage
      (Some (JObj [(js ''event'', JStr (js ''subtitle'')), (js ''text'', JStr [])]))
      open_controller = open_controller
   \<and> on_message (SUBTITLE (Some (JStr (js ''   ''))) None None) overlay_initial = overlay_initial"
proof -
  have e: "js ''event'' \<noteq> js ''text''" by (simp add: js_def)
  have ws: "list_all js_whitespace (js ''   '')" by (simp add: js_def js_whitespace_def)
  have a: "get_prop (JObj [(js ''event'', JStr (js ''subtitle'')), (js ''text'', JStr (js ''   ''))]) (js ''event'')
             = Some (JStr (js ''subtitle''))"
    "get_prop (JObj [(js ''event'', JStr (js ''subtitle'')), (js ''text'', JStr (js ''   ''))]) (js ''text'')
             = Some (JStr (js ''   ''))"
    "get_prop (JObj [(js ''event'', JStr (js ''subtitle'')), (js ''text'', JStr [])]) (js ''event'')
             = Some (JStr (js ''subtitle''))"
    "get_prop (JObj [(js ''event'', JStr (js ''subtitle'')), (js ''text'', JStr [])]) (js ''text'')
             = Some (JStr [])"
    using e by simp_all
  show ?thesis
    using blank_subtitle_dropped [OF a(1,2) ws, of open_controller 0 None None overlay_initial]
      blank_subtitle_dropped [OF a(3,4), of open_controller 0 None None overlay_initial]
    by simp
qed

section \<open>The caption timer\<close>














section \<open>Stopping twice\<close>

definition stop_notifications :: "controller \<Rightarrow> effect list" where
  "stop_notifications st =
     [RuntimeSend STOP_CAPTURE, StorageSet (Running False)] @
     (case currentTabId st of
        Some tab \<Rightarrow> if tab \<noteq> 0 then [TabsSend tab CLEAR_SUBTITLES] else []
      | None \<Rightarrow> [])"

lemma offscreen_stopCapture_cleared:
  "mediaRecorder (offscreen_stopCapture g) = None \<and> liveAudio (offscreen_stopCapture g) = None \<and>
   captureStream (offscreen_stopCapture g) = None \<and> webmHeader (offscreen_stopCapture g) = None"
  by (simp add: offscreen_stopCapture_def Let_def split: option.splits)

lemma offscreen_stopCapture_idle:
  assumes "mediaRecorder g = None" "liveAudio g = None" "captureStream g = None" "webmHeader g = None"
  shows "offscreen_stopCapture g = g"
  using assms by (simp add: offscreen_stopCapture_def Let_def)

lemma offscreen_stopCapture_twice:
  "offscreen_stopCapture (offscreen_stopCapture g) = offscreen_stopCapture g"
  using offscreen_stopCapture_cleared [of g] by (intro offscreen_stopCapture_idle) simp_all

lemma stopCapture_out:
  "out (stopCapture r st) = out st @ stop_notifications st"
  by (simp add: stopCapture_def stop_notifications_def Let_def emit_def clearTimeout_def
      ws_close_def update_socket_def split: option.splits)

lemma stopCapture_stopped:
  "isRunning (stopCapture r st) = False" "socket (stopCapture r st) = None"
  "currentTabId (stopCapture r st) = currentTabId st"
  "wsReconnectTimer (stopCapture r st) = wsReconnectTimer st"
  "timers (stopCapture r st) =
     (case wsReconnectTimer st of None \<Rightarrow> timers st
      | Some i \<Rightarrow> filter (\<lambda>tm. fst tm \<noteq> i) (timers st))"
  by (simp_all add: stopCapture_def Let_def emit_def clearTimeout_def
      ws_close_def update_socket_def split: option.splits)

lemma stopCapture_when_stopped:
  assumes "\<not> isRunning st" "socket st = None"
    and "case wsReconnectTimer st of None \<Rightarrow> True | Some i \<Rightarrow> i \<notin> fst ` set (timers st)"
  shows "stopCapture r st = st\<lparr>out := out st @ stop_notifications st\<rparr>"
proof -
  have "filter (\<lambda>tm. fst tm \<noteq> i) (timers st) = timers st" if "wsReconnectTimer st = Some i" for i
    using assms(3) that by (auto simp: filter_id_conv)
  then show ?thesis
    using assms(1,2)
    by (simp add: stopCapture_def stop_notifications_def Let_def emit_def clearTimeout_def
        split: option.splits)
qed

text \<open>
  C6. A second \<^verbatim>\<open>stopCapture\<close> changes nothing in the capturer: the state and the calls made
  on recorder, audio element and tracks are those of the first, so no track is stopped
  twice; and on a capturer that was never started it changes nothing at all. In the
  controller a second stop leaves every variable, socket and timeout as the first left
  them; it sends the same best-effort notifications again (\<^verbatim>\<open>STOP_CAPTURE\<close> to the capturer,
  \<^verbatim>\<open>running: false\<close> to the storage, \<^verbatim>\<open>CLEAR_SUBTITLES\<close> to the tab), and so does a stop of a
  controller that was never started. Each of these is idempotent where it arrives: a
  second \<^verbatim>\<open>CLEAR_SUBTITLES\<close> leaves the overlay as the first left it.
\<close>

theorem stop_idempotent:
  "offscreen_stopCapture (offscreen_stopCapture g) = offscreen_stopCapture g \<and>
   on_message CLEAR_SUBTITLES (on_message CLEAR_SUBTITLES ov) = on_message CLEAR_SUBTITLES ov \<and>
   platform_calls (offscreen_stopCapture (offscreen_stopCapture g)) = platform_calls (offscreen_stopCapture g) \<and>
   offscreen_stopCapture offscreen_initial = offscreen_initial \<and>
   stopCapture r2 (stopCapture r1 st) =
     (stopCapture r1 st)\<lparr>out := out (stopCapture r1 st) @ stop_notifications st\<rparr> \<and>
   stopCapture r1 controller_initial =
     controller_initial\<lparr>out := [RuntimeSend STOP_CAPTURE, StorageSet (Running False)]\<rparr>"
proof -
  let ?s = "stopCapture r1 st"
  have cleared: "case wsReconnectTimer ?s of None \<Rightarrow> True | Some i \<Rightarrow> i \<notin> fst ` set (timers ?s)"
    by (auto simp: stopCapture_stopped split: option.splits)
  have n: "stop_notifications ?s = stop_notifications st"
    by (simp add: stop_notifications_def stopCapture_stopped)
  have twice: "stopCapture r2 ?s = ?s\<lparr>out := out ?s @ stop_notifications st\<rparr>"
    using stopCapture_when_stopped [of ?s r2, OF _ _ cleared] by (simp add: stopCapture_stopped n)
  have init: "stopCapture r1 controller_initial =
     controller_initial\<lparr>out := [RuntimeSend STOP_CAPTURE, StorageSet (Running False)]\<rparr>"
    by (simp add: stopCapture_when_stopped controller_initial_def stop_notifications_def)
  have off: "offscreen_stopCapture offscreen_initial = offscreen_initial"
    by (simp add: offscreen_stopCapture_idle offscreen_initial_def)
  have clear: "on_message CLEAR_SUBTITLES (on_message CLEAR_SUBTITLES ov) = on_message CLEAR_SUBTITLES ov"
    by (simp add: on_message_def clearSubtitles_def clear_hide_timer_def split: option.splits)
  show ?thesis
    using twice init off clear by (simp add: offscreen_stopCapture_twice)
qed

definition capturing :: offscreen where
  "capturing =
     \<lparr>mediaRecorder = Some Recording, captureStream = Some [0, 1], liveAudio = Some (),
      webmHeader = Some [0x1A, 0x45], platform_calls = []\<rparr>"

theorem stop_idempotent_witness:
  "platform_calls (offscreen_stopCapture (offscreen_stopCapture capturing)) =
     [RecorderStop, AudioPause, TrackStop 0, TrackStop 1] \<and>
   out (stopCapture Manual (stopCapture Manual open_controller)) =
     out open_controller @
     [RuntimeSend STOP_CAPTURE, StorageSet (Running False), TabsSend 7 CLEAR_SUBTITLES,
      RuntimeSend STOP_CAPTURE, StorageSet (Running False), TabsSend 7 CLEAR_SUBTITLES] \<and>
   sockets (stopCapture Manual (stopCapture Manual open_controller)) =
     [\<lparr>ws_url = js ''ws://h'', ws_attempt = 0, ws_readyState = CLOSING,
       ws_timeout = 1, ws_promise = Resolved, ws_waiter = StartCall 0\<rparr>]"
proof -
  have a: "platform_calls (offscreen_stopCapture capturing) =
      [RecorderStop, AudioPause, TrackStop 0, TrackStop 1]"
    by (simp add: offscreen_stopCapture_def capturing_def Let_def)
  have b: "stopCapture Manual open_controller =
      open_controller\<lparr>isRunning := False, socket := None,
        sockets := [\<lparr>ws_url = js ''ws://h'', ws_attempt = 0, ws_readyState = CLOSING,
                     ws_timeout = 1, ws_promise = Resolved, ws_waiter = StartCall 0\<rparr>],
        out := out open_controller @
          [RuntimeSend STOP_CAPTURE, StorageSet (Running False), TabsSend 7 CLEAR_SUBTITLES]\<rparr>"
    by (simp add: stopCapture_def open_controller_eq Let_def emit_def
        clearTimeout_def ws_close_def update_socket_def)
  have c: "stop_notifications open_controller =
      [RuntimeSend STOP_CAPTURE, StorageSet (Running False), TabsSend 7 CLEAR_SUBTITLES]"
    by (simp add: stop_notifications_def open_controller_eq)
  show ?thesis
    using stop_idempotent [of capturing overlay_initial Manual Manual open_controller]
    by (simp add: a b c)
qed

section \<open>What the handlers of the controller leave unchanged\<close>

text \<open>
  What the closures of \<^verbatim>\<open>openWebSocket\<close> hold for the sockets created so far, in order of
  creation: \<^verbatim>\<open>url\<close>, \<^verbatim>\<open>attempt\<close>, the timeout \<^verbatim>\<open>t\<close> and the consumer of the promise. No handler
  assigns to them. The sockets opened by the reconnect callback are those consumed by
  \<open>ReconnectChain\<close>.
\<close>

definition closure_of :: "websocket \<Rightarrow> jsstring \<times> nat \<times> timer_id \<times> waiter" where
  "closure_of x = (ws_url x, ws_attempt x, ws_timeout x, ws_waiter x)"

definition closures :: "controller \<Rightarrow> (jsstring \<times> nat \<times> timer_id \<times> waiter) list" where
  "closures st = map closure_of (sockets st)"



lemma closures_update_socket:
  assumes "\<And>x. closure_of (f x) = closure_of x"
  shows "closures (update_socket w f st) = closures st"
  using assms by (simp add: closures_def update_socket_def map_update list_update_same_conv)

lemma closure_of_fields:
  "closure_of (x\<lparr>ws_readyState := r\<rparr>) = closure_of x"
  "closure_of (x\<lparr>ws_promise := p\<rparr>) = closure_of x"
  by (simp_all add: closure_of_def)

lemma update_socket_frame:
  "isRunning (update_socket w f st) = isRunning st"
  "timers (update_socket w f st) = timers st"
  "length (sockets (update_socket w f st)) = length (sockets st)"
  by (simp_all add: update_socket_def)

lemma emit_frame:
  "isRunning (emit e st) = isRunning st" "closures (emit e st) = closures st"
  by (simp_all add: emit_def closures_def)

lemma notifyStatus_frame:
  "isRunning (notifyStatus a b st) = isRunning st" "closures (notifyStatus a b st) = closures st"
  by (simp_all add: notifyStatus_def emit_frame)

lemma setTimeout_frame:
  "isRunning (setTimeout d a st) = isRunning st" "closures (setTimeout d a st) = closures st"
  by (simp_all add: setTimeout_def closures_def)

lemma clearTimeout_frame:
  "isRunning (clearTimeout t st) = isRunning st" "closures (clearTimeout t st) = closures st"
  by (simp_all add: clearTimeout_def closures_def split: option.splits)

lemma set_stage_frame:
  "isRunning (set_stage c sg st) = isRunning st" "closures (set_stage c sg st) = closures st"
  by (simp_all add: set_stage_def closures_def)

lemma ws_close_frame:
  "isRunning (ws_close w st) = isRunning st" "closures (ws_close w st) = closures st"
  by (simp_all add: ws_close_def update_socket_frame closures_update_socket closure_of_fields)

lemma fail_start_frame:
  "isRunning (fail_start c m st) = isRunning st" "closures (fail_start c m st) = closures st"
  by (simp_all add: fail_start_def emit_frame set_stage_frame)

lemma after_open_frame:
  "isRunning (after_open c outcome st) = isRunning st"
  "closures (after_open c outcome st) = closures st"
  by (simp_all add: after_open_def emit_frame set_stage_frame fail_start_frame
      split: promise_state.splits)

lemma settle_frame:
  "isRunning (settle w outcome st) = isRunning st"
  "closures (settle w outcome st) = closures st"
  by (simp_all add: settle_def Let_def after_open_frame notifyStatus_frame update_socket_frame
      closures_update_socket closure_of_fields split: waiter.splits promise_state.splits)

lemma ws_onopen_frame:
  "isRunning (ws_onopen w st) = isRunning st" "closures (ws_onopen w st) = closures st"
  by (simp_all add: ws_onopen_def settle_frame notifyStatus_frame clearTimeout_frame)

lemma ws_onerror_frame:
  "isRunning (ws_onerror w st) = isRunning st" "closures (ws_onerror w st) = closures st"
  by (simp_all add: ws_onerror_def settle_frame clearTimeout_frame)

lemma ws_onclose_frame:
  "isRunning (ws_onclose w st) = isRunning st" "closures (ws_onclose w st) = closures st"
  by (simp_all add: ws_onclose_def Let_def closures_def setTimeout_def notifyStatus_def emit_def)

lemma connect_timeout_frame:
  "isRunning (connect_timeout w st) = isRunning st" "closures (connect_timeout w st) = closures st"
  by (simp_all add: connect_timeout_def settle_frame ws_close_frame)

lemma openWebSocket_frame:
  "isRunning (openWebSocket url n wt st) = isRunning st"
  "closures (openWebSocket url n wt st) = closures st @ [(url, n, nextTimer st, wt)]"
  by (simp_all add: openWebSocket_def Let_def setTimeout_frame)
     (simp add: closures_def closure_of_def)


lemma delay_done_frame:
  "isRunning (delay_done c st) = isRunning st" "closures (delay_done c st) = closures st"
  by (simp_all add: delay_done_def emit_frame set_stage_frame)

lemma start_delay_frame:
  "isRunning (start_delay c st) = isRunning st" "closures (start_delay c st) = closures st"
  by (simp_all add: start_delay_def setTimeout_frame set_stage_frame)

lemma stopCapture_frame:
  "isRunning (stopCapture r st) = False" "closures (stopCapture r st) = closures st"
  by (simp_all add: stopCapture_def Let_def emit_frame clearTimeout_frame ws_close_frame
      closures_def split: option.splits)
     (simp_all add: emit_def clearTimeout_def ws_close_def update_socket_def map_update
      list_update_same_conv closure_of_def split: option.splits)

lemma handleAudioChunk_frame:
  "isRunning (handleAudioChunk ch md st) = isRunning st"
  "closures (handleAudioChunk ch md st) = closures st"
  by (simp_all add: handleAudioChunk_def Let_def emit_frame split: option.splits)

lemma handleServerMessage_frame:
  "isRunning (handleServerMessage p st) = isRunning st"
  "closures (handleServerMessage p st) = closures st"
  by (simp_all add: handleServerMessage_def Let_def emit_frame notifyStatus_frame
      split: option.splits json.splits)

lemma closures_fields:
  "closures (st\<lparr>currentTabId := a\<rparr>) = closures st"
  "closures (st\<lparr>calls := b\<rparr>) = closures st"
  "closures (st\<lparr>timers := d\<rparr>) = closures st"
  "closures (st\<lparr>isRunning := e\<rparr>) = closures st"
  "closures (st\<lparr>config := f\<rparr>) = closures st"
  by (simp_all add: closures_def)







lemma socket_event_frame:
  "isRunning (ws_onopen w (update_socket w f st)) = isRunning st"
  "isRunning (ws_onclose w (update_socket w f st)) = isRunning st"
  "closures (ws_onopen w (update_socket w (\<lambda>x. x\<lparr>ws_readyState := s\<rparr>) st)) = closures st"
  "closures (ws_onclose w (update_socket w (\<lambda>x. x\<lparr>ws_readyState := s\<rparr>) st)) = closures st"
  by (simp_all add: ws_onopen_frame ws_onclose_frame update_socket_frame closures_update_socket
      closure_of_fields)









section \<open>The attempt counter\<close>

lemma startCapture_closures: "closures (startCapture cfg st) = closures st"
  by (simp add: startCapture_def Let_def emit_frame stopCapture_frame closures_fields)

lemma resume_closures:
  "closures (resume c r st) = closures st \<or>
   closures (resume c r st) = closures st @ [(wsUrl (call_cfg (calls st ! c)), 0, nextTimer st, StartCall c)]"
  by (simp add: resume_def fail_start_frame emit_frame set_stage_frame openWebSocket_frame
      start_delay_frame notifyStatus_frame closures_fields set_stage_def
      split: start_stage.splits awaited.splits option.splits)

lemma timer_fires_closures:
  "\<exists>new. closures (timer_fires t st) = closures st @ new"
  by (simp add: timer_fires_def Let_def connect_timeout_frame delay_done_frame
      reconnect_callback_def openWebSocket_frame closures_fields
      split: option.splits prod.splits timer_action.splits)

lemma step_closures_grow: "\<exists>new. closures (step e st) = closures st @ new"
proof (cases e)
  case (MsgStartCapture cfg)
  then show ?thesis by (simp add: step_def startCapture_closures)
next
  case MsgStopCapture
  then show ?thesis by (simp add: step_def emit_frame stopCapture_frame)
next
  case (MsgAudioChunk ch md)
  then show ?thesis by (simp add: step_def handleAudioChunk_frame)
next
  case (MsgCaptureError err)
  then show ?thesis by (simp add: step_def notifyStatus_frame)
next
  case (TabRemoved i)
  then show ?thesis by (simp add: step_def stopCapture_frame)
next
  case (TabUpdated i l)
  then show ?thesis by (simp add: step_def stopCapture_frame)
next
  case (Completes c r)
  then show ?thesis using resume_closures [of c r st] by (auto simp: step_def)
next
  case (SocketOpens w)
  then show ?thesis by (simp add: step_def socket_event_frame)
next
  case (SocketErrors w)
  then show ?thesis by (simp add: step_def ws_onerror_frame)
next
  case (SocketCloses w)
  then show ?thesis by (simp add: step_def socket_event_frame)
next
  case (SocketMessage w p)
  then show ?thesis by (simp add: step_def handleServerMessage_frame)
next
  case (TimerFires t)
  then show ?thesis using timer_fires_closures [of t st] by (simp add: step_def)
qed

lemma step_attempt_fixed:
  assumes "w < length (sockets st)"
  shows "w < length (sockets (step e st)) \<and>
         ws_attempt (sockets (step e st) ! w) = ws_attempt (sockets st ! w)"
proof -
  from step_closures_grow [of e st] obtain new where
    n: "closures (step e st) = closures st @ new" by blast
  have l: "length (closures x) = length (sockets x)" for x by (simp add: closures_def)
  from n have "length (closures (step e st)) = length (closures st) + length new" by simp
  then have w: "w < length (sockets (step e st))" using assms by (simp add: l)
  have "closures (step e st) ! w = closures st ! w"
    using n assms by (simp add: nth_append l)
  then have "closure_of (sockets (step e st) ! w) = closure_of (sockets st ! w)"
    using w assms by (simp add: closures_def)
  then show ?thesis using w by (simp add: closure_of_def)
qed

lemma step_close_running:
  assumes "isRunning st" "w < length (sockets st)" "ws_readyState (sockets st ! w) \<noteq> CLOSED"
  shows "timers (step (SocketCloses w) st) =
           timers st @ [(nextTimer st, reconnect_delay (ws_attempt (sockets st ! w)),
                         ReconnectTimer (ws_url (sockets st ! w)) (ws_attempt (sockets st ! w)))]"
  using assms
  by (simp add: step_def ws_onclose_def Let_def notifyStatus_def emit_def setTimeout_def
      update_socket_def)

lemma step_reconnect_running:
  assumes "isRunning st" "find (\<lambda>tm. fst tm = t) (timers st) = Some (t, d, ReconnectTimer url n)"
  shows "sockets (step (TimerFires t) st) =
           sockets st @ [\<lparr>ws_url = url, ws_attempt = n + 1, ws_readyState = CONNECTING,
                           ws_timeout = nextTimer st, ws_promise = Pending,
                           ws_waiter = ReconnectChain\<rparr>]"
  using assms
  by (simp add: step_def timer_fires_def reconnect_callback_def openWebSocket_def Let_def
      setTimeout_def)

lemma step_start_socket:
  assumes "c < length (calls st)" "stage (calls st ! c) = AwaitExecuteScript"
  shows "sockets (step (Completes c ExecuteScriptSettled) st) =
           sockets st @ [\<lparr>ws_url = wsUrl (call_cfg (calls st ! c)), ws_attempt = 0,
                           ws_readyState = CONNECTING, ws_timeout = nextTimer st,
                           ws_promise = Pending, ws_waiter = StartCall c\<rparr>]"
  using assms
  by (simp add: step_def resume_def openWebSocket_def Let_def setTimeout_def set_stage_def)

lemma reconnect_delay_first: "reconnect_delay n = 2000 \<longleftrightarrow> n = 0"
proof (cases n)
  case 0
  then show ?thesis by (simp add: reconnect_delay_def)
next
  case (Suc m)
  have "(1::nat) \<le> 2 ^ m" by simp
  then have "(4000::nat) \<le> 2000 * 2 ^ Suc m" by simp
  then show ?thesis using Suc by (simp add: reconnect_delay_def min_def)
qed

text \<open>
  C2, as the code has it. The claim that a successful open resets the attempt counter
  fails: after a reconnection has succeeded, the close that follows schedules 4000 ms.
\<close>

theorem attempt_reset_counterexample:
  "ws_attempt (sockets (run (started_trace @ [SocketOpens 0, SocketCloses 0, TimerFires 2, SocketOpens 1])
       controller_initial) ! 1) = 1 \<and>
   ws_readyState (sockets (run (started_trace @ [SocketOpens 0, SocketCloses 0, TimerFires 2, SocketOpens 1])
       controller_initial) ! 1) = OPEN \<and>
   ws_promise (sockets (run (started_trace @ [SocketOpens 0, SocketCloses 0, TimerFires 2, SocketOpens 1])
       controller_initial) ! 1) = Resolved \<and>
   timers (run (started_trace @ [SocketOpens 0, SocketCloses 0, TimerFires 2, SocketOpens 1, SocketCloses 1])
       controller_initial) = [(4, 4000, ReconnectTimer (js ''ws://h'') 1)]"
  by (simp add: started_trace_def example_config_def controller_defs)

text \<open>
  C2, amended. The attempt counter of a connection is fixed when the connection is
  created and no event changes it, a successful open included. It is 0 for the connection
  a start opens and \<open>n + 1\<close> for the connection the reconnect callback opens after the
  close of a connection with counter \<open>n\<close>. The close of a connection with counter \<open>n\<close>
  on a running session schedules the reconnect after \<open>reconnect_delay n\<close> ms, which is
  2000 only for \<open>n = 0\<close>.
\<close>

theorem attempt_fixed_at_creation:
  "(w < length (sockets st) \<longrightarrow>
      w < length (sockets (step e st)) \<and>
      ws_attempt (sockets (step e st) ! w) = ws_attempt (sockets st ! w)) \<and>
   (c < length (calls st) \<and> stage (calls st ! c) = AwaitExecuteScript \<longrightarrow>
      sockets (step (Completes c ExecuteScriptSettled) st) =
        sockets st @ [\<lparr>ws_url = wsUrl (call_cfg (calls st ! c)), ws_attempt = 0,
                        ws_readyState = CONNECTING, ws_timeout = nextTimer st,
                        ws_promise = Pending, ws_waiter = StartCall c\<rparr>]) \<and>
   (isRunning st \<and> find (\<lambda>tm. fst tm = t) (timers st) = Some (t, d, ReconnectTimer url n) \<longrightarrow>
      sockets (step (TimerFires t) st) =
        sockets st @ [\<lparr>ws_url = url, ws_attempt = n + 1, ws_readyState = CONNECTING,
                        ws_timeout = nextTimer st, ws_promise = Pending,
                        ws_waiter = ReconnectChain\<rparr>]) \<and>
   (isRunning st \<and> w < length (sockets st) \<and> ws_readyState (sockets st ! w) \<noteq> CLOSED \<longrightarrow>
      timers (step (SocketCloses w) st) =
        timers st @ [(nextTimer st, reconnect_delay (ws_attempt (sockets st ! w)),
                      ReconnectTimer (ws_url (sockets st ! w)) (ws_attempt (sockets st ! w)))]) \<and>
   (reconnect_delay n = 2000 \<longleftrightarrow> n = 0)"
  using step_attempt_fixed [of w st e] step_start_socket [of c st]
    step_reconnect_running [of st t d url n] step_close_running [of st w]
    reconnect_delay_first [of n]
  by blast

theorem attempt_fixed_at_creation_witness:
  "ws_attempt (sockets (step (SocketOpens 1)
      (run (started_trace @ [SocketOpens 0, SocketCloses 0, TimerFires 2]) controller_initial)) ! 1) = 1 \<and>
   sockets (step (Completes 0 ExecuteScriptSettled)
      (run [MsgStartCapture example_config, Completes 0 (TabsQueryResult (Some 7))] controller_initial)) =
     [\<lparr>ws_url = js ''ws://h'', ws_attempt = 0, ws_readyState = CONNECTING, ws_timeout = 1,
       ws_promise = Pending, ws_waiter = StartCall 0\<rparr>] \<and>
   sockets (step (TimerFires 2)
      (run (started_trace @ [SocketOpens 0, SocketCloses 0]) controller_initial)) =
     [\<lparr>ws_url = js ''ws://h'', ws_attempt = 0, ws_readyState = CLOSED, ws_timeout = 1,
       ws_promise = Resolved, ws_waiter = StartCall 0\<rparr>,
      \<lparr>ws_url = js ''ws://h'', ws_attempt = 1, ws_readyState = CONNECTING, ws_timeout = 3,
       ws_promise = Pending, ws_waiter = ReconnectChain\<rparr>] \<and>
   timers (step (SocketCloses 0) (run (started_trace @ [SocketOpens 0]) controller_initial)) =
     [(2, 2000, ReconnectTimer (js ''ws://h'') 0)]"
proof -
  let ?a = "run (started_trace @ [SocketOpens 0, SocketCloses 0, TimerFires 2]) controller_initial"
  let ?b = "run [MsgStartCapture example_config, Completes 0 (TabsQueryResult (Some 7))] controller_initial"
  let ?c = "run (started_trace @ [SocketOpens 0, SocketCloses 0]) controller_initial"
  let ?d = "run (started_trace @ [SocketOpens 0]) controller_initial"
  have a: "1 < length (sockets ?a)" "ws_attempt (sockets ?a ! 1) = 1"
    by (simp_all add: started_trace_def example_config_def controller_defs)
  have b: "0 < length (calls ?b)" "stage (calls ?b ! 0) = AwaitExecuteScript"
    "wsUrl (call_cfg (calls ?b ! 0)) = js ''ws://h''" "sockets ?b = []" "nextTimer ?b = 1"
    by (simp_all add: example_config_def controller_defs)
  have c: "isRunning ?c"
    "find (\<lambda>tm. fst tm = 2) (timers ?c) = Some (2, 2000, ReconnectTimer (js ''ws://h'') 0)"
    "sockets ?c = [\<lparr>ws_url = js ''ws://h'', ws_attempt = 0, ws_readyState = CLOSED, ws_timeout = 1,
       ws_promise = Resolved, ws_waiter = StartCall 0\<rparr>]" "nextTimer ?c = 3"
    by (simp_all add: started_trace_def example_config_def controller_defs)
  have d: "isRunning ?d" "0 < length (sockets ?d)" "ws_readyState (sockets ?d ! 0) \<noteq> CLOSED"
    "timers ?d = []" "nextTimer ?d = 2" "ws_attempt (sockets ?d ! 0) = 0"
    "ws_url (sockets ?d ! 0) = js ''ws://h''"
    by (simp_all add: started_trace_def example_config_def controller_defs)
  have r: "reconnect_delay 0 = 2000" by (simp add: reconnect_delay_def)
  show ?thesis
    using attempt_fixed_at_creation [of 1 ?a "SocketOpens 1"]
      attempt_fixed_at_creation [of _ ?b _ 0]
      attempt_fixed_at_creation [of _ ?c _ _ 2 2000 "js ''ws://h''" 0]
      attempt_fixed_at_creation [of 0 ?d]
    by (simp only: a b c d r simp_thms append_Nil append_Cons add_0 One_nat_def [symmetric])
qed

section \<open>The connect timeout\<close>








end
